theory Spec2Isabelle
  imports Complex_Main
begin

section \<open>Cache (src/index.js, class Cache)\<close>

text \<open>
  The JavaScript \<^verbatim>\<open>Map\<close> behind the cache keeps its keys in insertion order:
  \<^verbatim>\<open>set\<close> on a key that is present replaces the stored item where it stands, \<^verbatim>\<open>set\<close> on a
  new key appends it, \<^verbatim>\<open>delete\<close> removes the key, and \<^verbatim>\<open>keys().next().value\<close> is the first
  key (\<^verbatim>\<open>undefined\<close> on an empty map, and deleting \<^verbatim>\<open>undefined\<close> removes nothing).
  The map is an association list in insertion order. Times are milliseconds, as \<^verbatim>\<open>Date.now()\<close>
  returns them; the reading of the clock is an argument of each operation.
\<close>

fun Map_set :: "'k \<Rightarrow> 'v \<Rightarrow> ('k \<times> 'v) list \<Rightarrow> ('k \<times> 'v) list" where
  "Map_set k v [] = [(k, v)]"
| "Map_set k v (p # ps) = (if fst p = k then (k, v) # ps else p # Map_set k v ps)"

fun Map_delete :: "'k \<Rightarrow> ('k \<times> 'v) list \<Rightarrow> ('k \<times> 'v) list" where
  "Map_delete k [] = []"
| "Map_delete k (p # ps) = (if fst p = k then Map_delete k ps else p # Map_delete k ps)"

fun Map_get :: "('k \<times> 'v) list \<Rightarrow> 'k \<Rightarrow> 'v option" where
  "Map_get [] k = None"
| "Map_get (p # ps) k = (if fst p = k then Some (snd p) else Map_get ps k)"

record 'v item =
  item_value :: 'v
  item_expires :: int

record ('k, 'v) Cache =
  maxSize :: int
  ttl :: int
  cache :: "('k \<times> 'v item) list"

definition new_Cache :: "int \<Rightarrow> int \<Rightarrow> ('k, 'v) Cache" where
  "new_Cache m t = \<lparr>maxSize = m, ttl = t, cache = []\<rparr>"

definition evict_first :: "('k \<times> 'v) list \<Rightarrow> ('k \<times> 'v) list" where
  "evict_first es = (case es of [] \<Rightarrow> [] | p # _ \<Rightarrow> Map_delete (fst p) es)"

definition Cache_set_ttl :: "('k, 'v) Cache \<Rightarrow> 'k \<Rightarrow> 'v \<Rightarrow> int \<Rightarrow> int \<Rightarrow> ('k, 'v) Cache" where
  "Cache_set_ttl c key v t now =
     (let es = (if int (length (cache c)) \<ge> maxSize c then evict_first (cache c) else cache c)
      in c\<lparr>cache := Map_set key \<lparr>item_value = v, item_expires = now + t\<rparr> es\<rparr>)"

definition Cache_set :: "('k, 'v) Cache \<Rightarrow> 'k \<Rightarrow> 'v \<Rightarrow> int \<Rightarrow> ('k, 'v) Cache" where
  "Cache_set c key v now = Cache_set_ttl c key v (ttl c) now"

definition Cache_get :: "('k, 'v) Cache \<Rightarrow> 'k \<Rightarrow> int \<Rightarrow> 'v option \<times> ('k, 'v) Cache" where
  "Cache_get c key now =
     (case Map_get (cache c) key of
        None \<Rightarrow> (None, c)
      | Some it \<Rightarrow>
          if now > item_expires it then (None, c\<lparr>cache := Map_delete key (cache c)\<rparr>)
          else (Some (item_value it), c))"

definition Cache_clear :: "('k, 'v) Cache \<Rightarrow> ('k, 'v) Cache" where
  "Cache_clear c = c\<lparr>cache := []\<rparr>"

definition Cache_size :: "('k, 'v) Cache \<Rightarrow> nat" where
  "Cache_size c = length (cache c)"

text \<open>A sequence of calls on one cache, each with the clock reading at the call.\<close>

datatype ('k, 'v) cache_op =
    OpSet 'k 'v int
  | OpSetTtl 'k 'v int int
  | OpGet 'k int
  | OpClear

fun cache_step :: "('k, 'v) Cache \<Rightarrow> ('k, 'v) cache_op \<Rightarrow> ('k, 'v) Cache" where
  "cache_step c (OpSet k v now) = Cache_set c k v now"
| "cache_step c (OpSetTtl k v t now) = Cache_set_ttl c k v t now"
| "cache_step c (OpGet k now) = snd (Cache_get c k now)"
| "cache_step c OpClear = Cache_clear c"

definition cache_run :: "('k, 'v) Cache \<Rightarrow> ('k, 'v) cache_op list \<Rightarrow> ('k, 'v) Cache" where
  "cache_run c ops = foldl cache_step c ops"

section \<open>RateLimiter (src/index.js, class RateLimiter)\<close>

text \<open>
  \<^verbatim>\<open>checkLimit\<close> reads the clock once, keeps the timestamps strictly newer than
  \<^verbatim>\<open>now - windowMs\<close>, sleeps when at least \<^verbatim>\<open>maxRequests\<close> of them remain, and then stores the
  kept timestamps with \<^verbatim>\<open>now\<close> (the reading taken before the sleep) appended. It has no
  \<^verbatim>\<open>throw\<close>. \<^verbatim>\<open>Math.min()\<close> of no arguments is \<^verbatim>\<open>Infinity\<close>, which only arises when
  \<^verbatim>\<open>maxRequests\<close> is not positive; the sleep requested then is the value \<open>SleepInfinity\<close>.
\<close>

datatype wait = NoSleep | Sleep int | SleepInfinity

record RateLimiter =
  maxRequests :: int
  windowMs :: int
  requests :: "(string \<times> int list) list"

definition new_RateLimiter :: "int \<Rightarrow> int \<Rightarrow> RateLimiter" where
  "new_RateLimiter m w = \<lparr>maxRequests = m, windowMs = w, requests = []\<rparr>"

fun Math_min :: "int list \<Rightarrow> int option" where
  "Math_min [] = None"
| "Math_min (x # xs) = (case Math_min xs of None \<Rightarrow> Some x | Some m \<Rightarrow> Some (min x m))"

definition recentRequests :: "RateLimiter \<Rightarrow> string \<Rightarrow> int \<Rightarrow> int list" where
  "recentRequests rl key now =
     filter (\<lambda>time. time > now - windowMs rl)
       (case Map_get (requests rl) key of None \<Rightarrow> [] | Some ts \<Rightarrow> ts)"

definition checkLimit :: "RateLimiter \<Rightarrow> string \<Rightarrow> int \<Rightarrow> wait \<times> RateLimiter" where
  "checkLimit rl key now =
     (let recent = recentRequests rl key now;
          w = (if int (length recent) \<ge> maxRequests rl
               then (case Math_min recent of
                       None \<Rightarrow> SleepInfinity
                     | Some oldestRequest \<Rightarrow> Sleep (windowMs rl - (now - oldestRequest)))
               else NoSleep)
      in (w, rl\<lparr>requests := Map_set key (recent @ [now]) (requests rl)\<rparr>))"

text \<open>Successive checks on one key at the given clock readings; the sleeps they request.\<close>

fun check_all :: "RateLimiter \<Rightarrow> string \<Rightarrow> int list \<Rightarrow> wait list \<times> RateLimiter" where
  "check_all rl key [] = ([], rl)"
| "check_all rl key (now # nows) =
     (let (w, rl') = checkLimit rl key now;
          (ws, rl'') = check_all rl' key nows
      in (w # ws, rl''))"

text \<open>The timestamps stored for a key; a key that was never checked has none.\<close>

definition stored :: "RateLimiter \<Rightarrow> string \<Rightarrow> int list" where
  "stored rl key = (case Map_get (requests rl) key of None \<Rightarrow> [] | Some ts \<Rightarrow> ts)"

text \<open>Concrete states used to run the operations: a cache of capacity 2 holding two entries,
  and a limiter of 3 requests per minute that has seen three requests.\<close>

definition demo_cache :: "(string, nat) Cache" where
  "demo_cache = cache_run (new_Cache 2 300000) [OpSet ''a'' 1 0, OpSet ''b'' 2 10]"

definition demo_limiter :: RateLimiter where
  "demo_limiter = \<lparr>maxRequests = 3, windowMs = 60000, requests = [(''api'', [1000, 2000, 3000])]\<rparr>"

section \<open>JavaScript values\<close>

text \<open>
  Values that cross the program's boundaries (tool input, response bodies, plan steps) are JSON
  values. An object is the list of its properties in the order they were written. A number is
  a finite value, \<^verbatim>\<open>NaN\<close> or an infinity (\<^verbatim>\<open>JSON.parse\<close> gives \<^verbatim>\<open>Infinity\<close> for a literal
  too large for a double); the two zeros are one value, which no operation of the program
  tells apart. A string is a list of 8-bit characters, read as code units below 256.
\<close>

datatype number = Finite real | NaN | Infinity | NegInfinity

datatype json =
    JNull
  | JBool bool
  | JNum number
  | JStr string
  | JArr "json list"
  | JObj "(string \<times> json) list"

text \<open>
  What the program can throw. It defines \<^verbatim>\<open>ZapmailError\<close> and two subclasses,
  \<^verbatim>\<open>ValidationError\<close> (code \<^verbatim>\<open>VALIDATION_ERROR\<close>, details \<^verbatim>\<open>field\<close> and \<^verbatim>\<open>value\<close>) and
  \<^verbatim>\<open>ApiError\<close> (code \<^verbatim>\<open>API_ERROR\<close>, details \<^verbatim>\<open>status\<close> and \<^verbatim>\<open>response\<close>); it defines no
  other error class. \<open>NativeError\<close> is an exception of the runtime, with its name and message:
  a \<^verbatim>\<open>TypeError\<close> of \<^verbatim>\<open>fetch\<close> for a connection failure, an \<^verbatim>\<open>AbortError\<close> on timeout, the
  \<^verbatim>\<open>TypeError\<close> of a conversion that has no result.
\<close>

datatype thrown =
    ValidationError string string json
  | ApiError string nat json
  | NativeError string string

text \<open>
  The parts of the JavaScript runtime that the program calls and that are not written out
  here: \<^verbatim>\<open>JSON.parse\<close> (\<open>None\<close> where it throws a \<^verbatim>\<open>SyntaxError\<close>), \<^verbatim>\<open>JSON.stringify\<close>, the
  decimal form of a number, the number a string denotes, and \<^verbatim>\<open>String.prototype.toUpperCase\<close>
  (whose result may leave the code units below 256, so it is not tabulated here).
\<close>

record runtime =
  JSON_parse :: "string \<Rightarrow> json option"
  JSON_stringify :: "json \<Rightarrow> string"
  Number_toString :: "number \<Rightarrow> string"
  StringToNumber :: "string \<Rightarrow> number"
  String_toUpperCase :: "string \<Rightarrow> string"

text \<open>
  \<^verbatim>\<open>String(v)\<close>, which a template literal also applies. A JSON object has the methods of
  \<^verbatim>\<open>Object.prototype\<close> only, and its own properties are never functions: an own property
  \<^verbatim>\<open>toString\<close> hides the inherited method, the inherited \<^verbatim>\<open>valueOf\<close> returns the object
  itself, and the conversion throws a \<^verbatim>\<open>TypeError\<close>, which is \<open>None\<close> here. Without such a
  property the result is \<^verbatim>\<open>[object Object]\<close>. An array joins the strings of its elements
  with commas, \<^verbatim>\<open>null\<close> counting as the empty string.
\<close>

fun join :: "string \<Rightarrow> string list \<Rightarrow> string" where
  "join sep [] = []"
| "join sep [s] = s"
| "join sep (s # t # ss) = s @ sep @ join sep (t # ss)"

fun js_String :: "runtime \<Rightarrow> json \<Rightarrow> string option" where
  "js_String rt JNull = Some ''null''"
| "js_String rt (JBool b) = Some (if b then ''true'' else ''false'')"
| "js_String rt (JNum n) = Some (Number_toString rt n)"
| "js_String rt (JStr s) = Some s"
| "js_String rt (JArr xs) =
     map_option (join '','')
       (those (map (\<lambda>x. if x = JNull then Some [] else js_String rt x) xs))"
| "js_String rt (JObj ps) =
     (if ''toString'' \<in> fst ` set ps then None else Some ''[object Object]'')"

text \<open>\<^verbatim>\<open>Number(v)\<close>: an object is converted to a primitive first, by \<^verbatim>\<open>valueOf\<close> and then
  \<^verbatim>\<open>toString\<close>, so it throws where \<^verbatim>\<open>String\<close> does, and gives the number its string denotes
  otherwise (\<^verbatim>\<open>NaN\<close> for \<^verbatim>\<open>[object Object]\<close>).\<close>

fun js_Number :: "runtime \<Rightarrow> json \<Rightarrow> number option" where
  "js_Number rt JNull = Some (Finite 0)"
| "js_Number rt (JBool b) = Some (Finite (if b then 1 else 0))"
| "js_Number rt (JNum n) = Some n"
| "js_Number rt (JStr s) = Some (StringToNumber rt s)"
| "js_Number rt (JArr xs) = map_option (StringToNumber rt) (js_String rt (JArr xs))"
| "js_Number rt (JObj ps) = (if ''toString'' \<in> fst ` set ps then None else Some NaN)"

text \<open>The \<^verbatim>\<open>TypeError\<close> of a conversion without result, with the message of V8.\<close>

definition conversion_error :: thrown where
  "conversion_error = NativeError ''TypeError'' ''Cannot convert object to primitive value''"

fun truthy :: "json \<Rightarrow> bool" where
  "truthy JNull = False"
| "truthy (JBool b) = b"
| "truthy (JNum x) = (x \<noteq> Finite 0 \<and> x \<noteq> NaN)"
| "truthy (JStr s) = (s \<noteq> [])"
| "truthy (JArr _) = True"
| "truthy (JObj _) = True"

text \<open>Property access \<^verbatim>\<open>v?.name\<close>: \<open>None\<close> is \<^verbatim>\<open>undefined\<close>. Only objects have the
  properties the program reads by name.\<close>

fun get_prop :: "json option \<Rightarrow> string \<Rightarrow> json option" where
  "get_prop (Some (JObj ps)) name = Map_get (rev ps) name"
| "get_prop _ name = None"

text \<open>Element access \<^verbatim>\<open>v?.[0]\<close>, always followed in the program by a property access. On a
  string the element would be a one-character string, which has none of the properties the
  program reads; it is given as absent.\<close>

fun index0 :: "json option \<Rightarrow> json option" where
  "index0 (Some (JArr (x # _))) = Some x"
| "index0 (Some (JObj ps)) = Map_get (rev ps) ''0''"
| "index0 _ = None"

definition truthy_opt :: "json option \<Rightarrow> bool" where
  "truthy_opt v = (case v of None \<Rightarrow> False | Some x \<Rightarrow> truthy x)"

text \<open>\<^verbatim>\<open>a ?? b\<close>: the left operand unless it is \<^verbatim>\<open>null\<close> or \<^verbatim>\<open>undefined\<close>.\<close>

definition nullish :: "json option \<Rightarrow> bool" where
  "nullish v = (v = None \<or> v = Some JNull)"

section \<open>Strings and characters\<close>

definition lowers :: string where "lowers = ''abcdefghijklmnopqrstuvwxyz''"
definition uppers :: string where "uppers = ''ABCDEFGHIJKLMNOPQRSTUVWXYZ''"
definition digits :: string where "digits = ''0123456789''"

text \<open>The canonical form of a character under the flag \<^verbatim>\<open>i\<close> of a regular expression, as far
  as it matters for the patterns of the program, whose letters are ASCII: a small ASCII letter
  becomes its capital, and no other code unit is canonicalised to an ASCII character.\<close>

definition toUpperCase_char :: "char \<Rightarrow> char" where
  "toUpperCase_char c = (case map_of (zip lowers uppers) c of Some u \<Rightarrow> u | None \<Rightarrow> c)"

text \<open>\<^verbatim>\<open>String.prototype.toLowerCase\<close> on code units below 256: the capitals are \<^verbatim>\<open>A\<close> to
  \<^verbatim>\<open>Z\<close> and the code units \<^verbatim>\<open>0xC0\<close> to \<^verbatim>\<open>0xDE\<close> but \<^verbatim>\<open>0xD7\<close> (the multiplication sign), and the
  small letter of each is 32 further.\<close>

definition toLowerCase_char :: "char \<Rightarrow> char" where
  "toLowerCase_char c =
     (let n = (of_char c :: nat)
      in if (65 \<le> n \<and> n \<le> 90) \<or> (192 \<le> n \<and> n \<le> 222 \<and> n \<noteq> 215) then char_of (n + 32) else c)"

definition toLowerCase :: "string \<Rightarrow> string" where
  "toLowerCase s = map toLowerCase_char s"

definition is_digit :: "char \<Rightarrow> bool" where
  "is_digit c = (c \<in> set digits)"

definition is_alpha :: "char \<Rightarrow> bool" where
  "is_alpha c = (c \<in> set lowers \<or> c \<in> set uppers)"

text \<open>The class \<^verbatim>\<open>\w\<close>, which decides \<^verbatim>\<open>\b\<close>.\<close>

definition is_word :: "char \<Rightarrow> bool" where
  "is_word c = (is_alpha c \<or> is_digit c \<or> c = CHR ''_'')"

text \<open>White space and line terminators among the code units below 256: tab, line feed,
  vertical tab, form feed, carriage return, space, no-break space.\<close>

definition is_space :: "char \<Rightarrow> bool" where
  "is_space c = (c \<in> set [CHR 0x09, CHR 0x0A, CHR 0x0B, CHR 0x0C, CHR 0x0D, CHR 0x20, CHR 0xA0])"

definition is_line_terminator :: "char \<Rightarrow> bool" where
  "is_line_terminator c = (c = CHR 0x0A \<or> c = CHR 0x0D)"

definition trim :: "string \<Rightarrow> string" where
  "trim s = rev (dropWhile is_space (rev (dropWhile is_space s)))"

text \<open>\<^verbatim>\<open>parseInt(s, 10)\<close> on a string of decimal digits, and the decimal numeral a template
  literal writes for a non-negative integer. Integers are unbounded here.\<close>

definition digit_val :: "char \<Rightarrow> nat" where
  "digit_val c = (case map_of (zip digits [0, 1, 2, 3, 4, 5, 6, 7, 8, 9]) c of Some d \<Rightarrow> d | None \<Rightarrow> 0)"

definition parseInt :: "string \<Rightarrow> nat" where
  "parseInt s = foldl (\<lambda>n c. 10 * n + digit_val c) 0 s"

fun show_nat :: "nat \<Rightarrow> string" where
  "show_nat n = (if n < 10 then [digits ! n] else show_nat (n div 10) @ [digits ! (n mod 10)])"

declare show_nat.simps [simp del]

section \<open>Regular expressions\<close>

text \<open>
  The regular expressions of the planner use literals, character classes, \<^verbatim>\<open>.\<close>, \<^verbatim>\<open>\b\<close>,
  alternation, and the greedy quantifiers \<^verbatim>\<open>?\<close>, \<^verbatim>\<open>*\<close>, \<^verbatim>\<open>+\<close>, all under the flag \<^verbatim>\<open>i\<close>.
  A match is computed the way the backtracking matcher of ECMAScript explores it: \<open>rmatch r p\<close>
  lists the positions at which a match of \<open>r\<close> that starts at \<open>p\<close> can end, in the order in which
  backtracking reaches them (the left alternative first, the longest repetition first), so the
  head of the list is the match a JavaScript engine reports. A position is the rest of the
  subject together with whether the character before it is a word character, which is what
  \<^verbatim>\<open>\b\<close> looks at. An iteration of \<^verbatim>\<open>*\<close> that consumes nothing is rejected, as in ECMAScript.
\<close>

datatype rx =
    Eps
  | Chars "char \<Rightarrow> bool"
  | WordB
  | Seq rx rx
  | Alt rx rx
  | Star rx

type_synonym pos = "bool \<times> string"

definition at_boundary :: "pos \<Rightarrow> bool" where
  "at_boundary p = (fst p \<noteq> (case snd p of [] \<Rightarrow> False | c # _ \<Rightarrow> is_word c))"

fun star :: "(pos \<Rightarrow> pos list) \<Rightarrow> nat \<Rightarrow> pos \<Rightarrow> pos list" where
  "star f 0 p = [p]"
| "star f (Suc n) p =
     concat (map (star f n) (filter (\<lambda>q. length (snd q) < length (snd p)) (f p))) @ [p]"

primrec rmatch :: "rx \<Rightarrow> pos \<Rightarrow> pos list" where
  "rmatch Eps = (\<lambda>p. [p])"
| "rmatch (Chars P) =
     (\<lambda>p. case snd p of [] \<Rightarrow> [] | c # cs \<Rightarrow> if P c then [(is_word c, cs)] else [])"
| "rmatch WordB = (\<lambda>p. if at_boundary p then [p] else [])"
| "rmatch (Seq r s) = (\<lambda>p. concat (map (rmatch s) (rmatch r p)))"
| "rmatch (Alt r s) = (\<lambda>p. rmatch r p @ rmatch s p)"
| "rmatch (Star r) = (\<lambda>p. star (rmatch r) (length (snd p)) p)"

text \<open>Pattern syntax: a literal under the flag \<^verbatim>\<open>i\<close> compares canonicalised (upper-cased)
  characters; \<^verbatim>\<open>.\<close> is any character but a line terminator.\<close>

definition chr_i :: "char \<Rightarrow> rx" where
  "chr_i c = Chars (\<lambda>d. toUpperCase_char d = toUpperCase_char c)"

definition lit :: "string \<Rightarrow> rx" where
  "lit s = foldr (\<lambda>c r. Seq (chr_i c) r) s Eps"

definition seqs :: "rx list \<Rightarrow> rx" where
  "seqs rs = foldr Seq rs Eps"

fun alts :: "rx list \<Rightarrow> rx" where
  "alts [] = Chars (\<lambda>_. False)"
| "alts [r] = r"
| "alts (r # rs) = Alt r (alts rs)"

definition opt :: "rx \<Rightarrow> rx" where
  "opt r = Alt r Eps"

definition plus :: "rx \<Rightarrow> rx" where
  "plus r = Seq r (Star r)"

definition dot :: rx where
  "dot = Chars (\<lambda>c. \<not> is_line_terminator c)"

definition words :: "string list \<Rightarrow> rx" where
  "words ws = alts (map lit ws)"

text \<open>\<^verbatim>\<open>re.test(s)\<close>: is there a match starting at some index, tried from the left.\<close>

fun search :: "rx \<Rightarrow> bool \<Rightarrow> string \<Rightarrow> bool" where
  "search r prev [] = (rmatch r (prev, []) \<noteq> [])"
| "search r prev (c # cs) = (rmatch r (prev, c # cs) \<noteq> [] \<or> search r (is_word c) cs)"

definition test :: "rx \<Rightarrow> string \<Rightarrow> bool" where
  "test r s = search r False s"

text \<open>
  \<^verbatim>\<open>re.exec\<close> for a pattern with one capturing group, written as the part before the group,
  the group, and the part after it: the first complete match in backtracking order at the
  leftmost index that has one. The result is the text of the group and the position after the
  whole match (\<^verbatim>\<open>lastIndex\<close> for a global pattern).
\<close>

definition match_here :: "rx \<Rightarrow> rx \<Rightarrow> rx \<Rightarrow> pos \<Rightarrow> (string \<times> pos) list" where
  "match_here pre grp post p =
     concat (map (\<lambda>p1. concat (map (\<lambda>p2. map (\<lambda>p3.
         (take (length (snd p1) - length (snd p2)) (snd p1), p3)) (rmatch post p2))
       (rmatch grp p1))) (rmatch pre p))"

fun exec_from :: "rx \<Rightarrow> rx \<Rightarrow> rx \<Rightarrow> bool \<Rightarrow> string \<Rightarrow> (string \<times> pos) option" where
  "exec_from pre grp post prev [] =
     (case match_here pre grp post (prev, []) of [] \<Rightarrow> None | m # _ \<Rightarrow> Some m)"
| "exec_from pre grp post prev (c # cs) =
     (case match_here pre grp post (prev, c # cs) of
        [] \<Rightarrow> exec_from pre grp post (is_word c) cs
      | m # _ \<Rightarrow> Some m)"

definition match1 :: "rx \<Rightarrow> rx \<Rightarrow> rx \<Rightarrow> string \<Rightarrow> string option" where
  "match1 pre grp post s = map_option fst (exec_from pre grp post False s)"

text \<open>The flag of the position reached from a position with flag \<open>b\<close> by reading \<open>w\<close>: whether
  the last character read is a word character.\<close>

definition flag_after :: "bool \<Rightarrow> string \<Rightarrow> bool" where
  "flag_after b w = (if w = [] then b else is_word (last w))"

section \<open>Natural-language planner (src/index.js, INTENT_PATTERNS and planFromRules)\<close>

datatype intent =
    LIST_WORKSPACES
  | LIST_DOMAINS
  | CHECK_DOMAIN
  | BUY_DOMAINS
  | CREATE_MAILBOXES_EMPTY
  | CONNECT_EXPORT_APP
  | EXPORT_TO_REACHINBOX
  | EXPORT_TO_INSTANTLY
  | EXPORT_TO_SMARTLEAD
  | EXPORT_TO_REPLYIO
  | EXPORT_MAILBOXES
  | EXPORT_CSV
  | EXPORT_SPECIFIC
  | EXPORT_BY_DOMAIN
  | CREATE_AND_CONNECT

text \<open>Pieces that recur in the patterns: \<^verbatim>\<open>domains?\<close>, \<^verbatim>\<open>(domain|domains?)\<close>,
  \<^verbatim>\<open>mailboxes?\<close>, \<^verbatim>\<open>inboxes?\<close>, \<^verbatim>\<open>emails?\<close>, \<^verbatim>\<open>contacts?\<close>, \<^verbatim>\<open>reply\.?io\<close>, \<^verbatim>\<open>.*\<close>.\<close>

definition s_opt :: "string \<Rightarrow> rx" where
  "s_opt w = Seq (lit w) (opt (lit ''s''))"

definition domain_or_domains :: rx where
  "domain_or_domains = Alt (lit ''domain'') (s_opt ''domain'')"

definition reply_io :: rx where
  "reply_io = seqs [lit ''reply'', opt (lit ''.''), lit ''io'']"

definition any_text :: rx where
  "any_text = Star dot"

definition INTENT_PATTERNS :: "(intent \<times> rx) list" where
  "INTENT_PATTERNS =
   [(LIST_WORKSPACES,
       seqs [WordB, words [''list'', ''show'', ''get''], WordB, any_text,
             WordB, s_opt ''workspace'', WordB]),
    (LIST_DOMAINS,
       seqs [WordB, words [''list'', ''show'', ''get''], WordB, any_text,
             WordB, s_opt ''domain'', WordB]),
    (CHECK_DOMAIN,
       seqs [WordB, words [''check'', ''is'', ''are''], WordB, any_text,
             WordB, domain_or_domains, WordB, any_text, WordB, lit ''available'', WordB]),
    (BUY_DOMAINS,
       seqs [WordB, words [''buy'', ''purchase'', ''register''], WordB, any_text,
             WordB, domain_or_domains, WordB]),
    (CREATE_MAILBOXES_EMPTY,
       seqs [WordB, words [''create'', ''add'', ''setup''], WordB, any_text,
             WordB, Alt (s_opt ''mailboxe'') (s_opt ''inboxe''), WordB, any_text,
             WordB, words [''0'', ''zero''], WordB, any_text, WordB, s_opt ''domain'', WordB]),
    (CONNECT_EXPORT_APP,
       seqs [WordB, words [''connect'', ''link'', ''add''], WordB, any_text,
             WordB, alts [lit ''instantly'', lit ''reachinbox'', lit ''smartlead'', reply_io], WordB]),
    (EXPORT_TO_REACHINBOX,
       seqs [WordB, words [''export'', ''send'', ''transfer''], WordB, any_text,
             WordB, words [''reachinbox'', ''reachin''], WordB]),
    (EXPORT_TO_INSTANTLY,
       seqs [WordB, words [''export'', ''send'', ''transfer''], WordB, any_text,
             WordB, lit ''instantly'', WordB]),
    (EXPORT_TO_SMARTLEAD,
       seqs [WordB, words [''export'', ''send'', ''transfer''], WordB, any_text,
             WordB, lit ''smartlead'', WordB]),
    (EXPORT_TO_REPLYIO,
       seqs [WordB, words [''export'', ''send'', ''transfer''], WordB, any_text,
             WordB, Alt reply_io (lit ''replyio''), WordB]),
    (EXPORT_MAILBOXES,
       seqs [WordB, words [''export'', ''download'', ''get''], WordB, any_text,
             WordB, alts [s_opt ''mailboxe'', s_opt ''email'', s_opt ''contact''], WordB]),
    (EXPORT_CSV,
       seqs [WordB, words [''export'', ''download'', ''get''], WordB, any_text,
             WordB, words [''csv'', ''file'', ''spreadsheet''], WordB]),
    (EXPORT_SPECIFIC,
       seqs [WordB, words [''export'', ''send''], WordB, any_text,
             WordB, words [''specific'', ''certain'', ''selected''], WordB, any_text,
             WordB, Alt (s_opt ''mailboxe'') (s_opt ''email''), WordB]),
    (EXPORT_BY_DOMAIN,
       seqs [WordB, words [''export'', ''send''], WordB, any_text,
             WordB, domain_or_domains, WordB, any_text,
             WordB, Alt (s_opt ''mailboxe'') (s_opt ''email''), WordB])]"

text \<open>The loop over \<^verbatim>\<open>INTENT_PATTERNS\<close> with its \<^verbatim>\<open>break\<close>: the first pattern that matches.\<close>

fun first_intent :: "(intent \<times> rx) list \<Rightarrow> string \<Rightarrow> intent option" where
  "first_intent [] q = None"
| "first_intent (p # ps) q = (if test (snd p) q then Some (fst p) else first_intent ps q)"

definition compound_pattern :: rx where
  "compound_pattern =
     seqs [WordB, Alt (s_opt ''mailboxe'') (s_opt ''inboxe''), WordB, any_text,
           WordB, words [''connect'', ''link''], WordB]"

definition matched_intent :: "string \<Rightarrow> intent option" where
  "matched_intent q =
     (case first_intent INTENT_PATTERNS q of
        Some i \<Rightarrow> Some i
      | None \<Rightarrow> if test compound_pattern q then Some CREATE_AND_CONNECT else None)"

subsection \<open>Parameter extraction\<close>

text \<open>\<^verbatim>\<open>/\b([a-z0-9-]+\.(?:com|net|org|io|ai|app|co|in))\b/gi\<close>\<close>

definition domain_chars :: rx where
  "domain_chars = Chars (\<lambda>c. is_alpha c \<or> is_digit c \<or> c = CHR ''-'')"

definition domain_group :: rx where
  "domain_group =
     seqs [plus domain_chars, lit ''.'',
           words [''com'', ''net'', ''org'', ''io'', ''ai'', ''app'', ''co'', ''in'']]"

text \<open>
  The \<^verbatim>\<open>while\<close> loop of \<^verbatim>\<open>simpleParseDomains\<close>: each \<^verbatim>\<open>exec\<close> resumes where the last
  match ended, and the lower-cased match joins the \<^verbatim>\<open>Set\<close> if it is new. A match of this
  pattern is never empty, so the rest of the subject gets shorter at every turn.
\<close>

function domains_loop :: "pos \<Rightarrow> string list \<Rightarrow> string list" where
  "domains_loop p doms =
     (case exec_from WordB domain_group WordB (fst p) (snd p) of
        None \<Rightarrow> doms
      | Some (m, p') \<Rightarrow>
          if length (snd p') < length (snd p)
          then domains_loop p' (if toLowerCase m \<in> set doms then doms else doms @ [toLowerCase m])
          else doms)"
  by pat_completeness auto
termination
  by (relation "measure (\<lambda>(p, doms). length (snd p))") auto

declare domains_loop.simps [simp del]

definition simpleParseDomains :: "string \<Rightarrow> string list" where
  "simpleParseDomains text = domains_loop (False, text) []"

text \<open>\<^verbatim>\<open>/\b(\d+)\s*(?:year|years|yr|yrs)\b/i\<close> and \<^verbatim>\<open>/\b(\d+)\s*(?:mailboxes?|inboxes?)\b/i\<close>\<close>

definition simpleParseYears :: "string \<Rightarrow> nat" where
  "simpleParseYears text =
     (case match1 WordB (plus (Chars is_digit))
             (seqs [Star (Chars is_space), words [''year'', ''years'', ''yr'', ''yrs''], WordB]) text of
        Some m \<Rightarrow> max 1 (parseInt m)
      | None \<Rightarrow> 1)"

definition simpleParseMailboxCount :: "string \<Rightarrow> nat" where
  "simpleParseMailboxCount text =
     (case match1 WordB (plus (Chars is_digit))
             (seqs [Star (Chars is_space), Alt (s_opt ''mailboxe'') (s_opt ''inboxe''), WordB]) text of
        Some m \<Rightarrow> max 1 (parseInt m)
      | None \<Rightarrow> 3)"

text \<open>\<^verbatim>\<open>/\b(?:from|in|to)\s+([a-zA-Z0-9.-]+\.[a-zA-Z]{2,})\b/i\<close>\<close>

definition export_domain :: "string \<Rightarrow> string option" where
  "export_domain q =
     match1 (seqs [WordB, words [''from'', ''in'', ''to''], plus (Chars is_space)])
       (seqs [plus (Chars (\<lambda>c. is_alpha c \<or> is_digit c \<or> c = CHR ''.'' \<or> c = CHR ''-'')),
              lit ''.'', Chars is_alpha, Chars is_alpha, Star (Chars is_alpha)])
       WordB q"

text \<open>The app named in the instruction: \<^verbatim>\<open>/reachinbox/i\<close>, \<^verbatim>\<open>/smartlead/i\<close>,
  \<^verbatim>\<open>/reply\.?io/i\<close>, and Instantly otherwise.\<close>

definition pick_app :: "string \<Rightarrow> string" where
  "pick_app q =
     (if test (lit ''reachinbox'') q then ''REACHINBOX''
      else if test (lit ''smartlead'') q then ''SMARTLEAD''
      else if test reply_io q then ''REPLY_IO''
      else ''INSTANTLY'')"

subsection \<open>Plans\<close>

record options =
  email :: "string option"
  password :: "string option"

text \<open>\<^verbatim>\<open>options?.email || dflt\<close>: the default replaces a missing or empty string.\<close>

definition or_default :: "string option \<Rightarrow> string \<Rightarrow> string" where
  "or_default v dflt = (case v of None \<Rightarrow> dflt | Some s \<Rightarrow> if s = [] then dflt else s)"

record plan =
  strategy :: string
  steps :: "json list"

definition api_step :: "string \<Rightarrow> string \<Rightarrow> (string \<times> json) list \<Rightarrow> string \<Rightarrow> json" where
  "api_step path method extra description =
     JObj ([(''action'', JStr ''api''), (''path'', JStr path), (''method'', JStr method)] @ extra
           @ [(''description'', JStr description)])"

definition note_step :: "string \<Rightarrow> string \<Rightarrow> json" where
  "note_step action note = JObj [(''action'', JStr action), (''note'', JStr note)]"

definition account_step :: "options \<Rightarrow> string \<Rightarrow> string \<Rightarrow> string \<Rightarrow> string \<Rightarrow> json" where
  "account_step opts dflt_email dflt_password app description =
     api_step ''/v2/exports/accounts/third-party'' ''POST''
       [(''body'', JObj [(''email'', JStr (or_default (email opts) dflt_email)),
                         (''password'', JStr (or_default (password opts) dflt_password)),
                         (''app'', JStr app)])]
       description"

definition export_step :: "(string \<times> json) list \<Rightarrow> string \<Rightarrow> json" where
  "export_step body description =
     api_step ''/v2/exports/mailboxes'' ''POST'' [(''body'', JObj body)] description"

definition export_to :: "options \<Rightarrow> string \<Rightarrow> string \<Rightarrow> json list" where
  "export_to opts app name =
     [note_step ''info'' (''Export to '' @ name @ '' requires credentials. Please provide your ''
                          @ name @ '' email and password.''),
      account_step opts ''REQUIRED'' ''REQUIRED'' app (''Add '' @ name @ '' account credentials''),
      export_step [(''apps'', JArr [JStr app]), (''status'', JStr ''ACTIVE'')]
        (''Export all active mailboxes to '' @ name)]"

definition availability_step :: "string \<Rightarrow> string \<Rightarrow> json" where
  "availability_step q d =
     JObj [(''action'', JStr ''api''),
           (''slug'', JStr ''get-available-domains-for-registration-13521189e0''),
           (''path'', JStr ''/v2/domains/available''),
           (''method'', JStr ''POST''),
           (''body'', JObj [(''domainName'', JStr d), (''years'', JNum (Finite (real (simpleParseYears q))))]),
           (''description'', JStr (''Check availability for '' @ d))]"

fun steps_for :: "intent option \<Rightarrow> string \<Rightarrow> options \<Rightarrow> json list" where
  "steps_for (Some LIST_WORKSPACES) q opts =
     [JObj [(''action'', JStr ''api''), (''slug'', JNull), (''path'', JStr ''/v2/workspaces''),
            (''method'', JStr ''GET''), (''description'', JStr ''List all workspaces'')]]"
| "steps_for (Some LIST_DOMAINS) q opts =
     [JObj [(''action'', JStr ''api''), (''slug'', JNull), (''path'', JStr ''/v2/domains''),
            (''method'', JStr ''GET''), (''description'', JStr ''List domains in current workspace'')]]"
| "steps_for (Some CHECK_DOMAIN) q opts =
     note_step ''decision''
       ''Wallet-first is irrelevant for availability; proceed to availability check.''
     # map (availability_step q) (simpleParseDomains q)"
| "steps_for (Some BUY_DOMAINS) q opts =
     (let domains = simpleParseDomains q; years = simpleParseYears q in
      [api_step ''/v2/wallet/balance'' ''GET'' [] ''Get wallet balance'',
       note_step ''compute''
         ''Check availability & price for each domain, compute total, prefer wallet if sufficient.'',
       api_step ''/v2/domains/buy'' ''POST''
         [(''bodyFrom'', JStr ''purchaseDomains''), (''years'', JNum (Finite (real years))),
          (''domains'', JArr (map JStr domains))]
         (''Purchase '' @ show_nat (length domains) @ '' domains (wallet-first)'')])"
| "steps_for (Some CREATE_MAILBOXES_EMPTY) q opts =
     (let count = simpleParseMailboxCount q in
      [api_step ''/v2/domains'' ''GET'' [] ''List domains'',
       note_step ''compute'' ''Filter domains with 0 mailboxes'',
       api_step ''/v2/mailboxes'' ''POST''
         [(''bodyFrom'', JStr ''createMailboxesForZeroDomains''), (''count'', JNum (Finite (real count)))]
         (''Create '' @ show_nat count @ '' mailboxes on each zero-mailbox domain'')])"
| "steps_for (Some CONNECT_EXPORT_APP) q opts =
     [account_step opts ''placeholder@example.com'' ''APP_PASSWORD'' (pick_app q)
        (''Connect third-party app '' @ pick_app q)]"
| "steps_for (Some EXPORT_TO_REACHINBOX) q opts = export_to opts ''REACHINBOX'' ''Reachinbox''"
| "steps_for (Some EXPORT_TO_INSTANTLY) q opts = export_to opts ''INSTANTLY'' ''Instantly''"
| "steps_for (Some EXPORT_TO_SMARTLEAD) q opts = export_to opts ''SMARTLEAD'' ''Smartlead''"
| "steps_for (Some EXPORT_TO_REPLYIO) q opts = export_to opts ''REPLY_IO'' ''Reply.io''"
| "steps_for (Some EXPORT_MAILBOXES) q opts =
     [note_step ''info''
        ''Export mailboxes. Please specify target platform or use MANUAL for CSV export.'',
      export_step [(''apps'', JArr [JStr ''MANUAL'']), (''status'', JStr ''ACTIVE'')]
        ''Export all active mailboxes as CSV'']"
| "steps_for (Some EXPORT_CSV) q opts =
     [export_step [(''apps'', JArr [JStr ''MANUAL'']), (''status'', JStr ''ACTIVE'')]
        ''Export all active mailboxes as CSV file'']"
| "steps_for (Some EXPORT_SPECIFIC) q opts =
     [note_step ''info''
        ''Export specific mailboxes requires mailbox IDs. Please provide the IDs or use filters.'',
      export_step [(''apps'', JArr [JStr ''MANUAL'']), (''ids'', JArr [JStr ''REQUIRED_MAILBOX_IDS''])]
        ''Export specific mailboxes as CSV'']"
| "steps_for (Some EXPORT_BY_DOMAIN) q opts =
     (case export_domain q of
        Some domain \<Rightarrow>
          [export_step [(''apps'', JArr [JStr ''MANUAL'']), (''contains'', JStr domain),
                        (''status'', JStr ''ACTIVE'')]
             (''Export mailboxes from domain '' @ domain @ '' as CSV'')]
      | None \<Rightarrow>
          [note_step ''info'' ''Export by domain requires domain name. Please specify the domain.'',
           export_step [(''apps'', JArr [JStr ''MANUAL'']), (''contains'', JStr ''DOMAIN_NAME''),
                        (''status'', JStr ''ACTIVE'')]
             ''Export mailboxes from specified domain as CSV''])"
| "steps_for (Some CREATE_AND_CONNECT) q opts =
     (let count = simpleParseMailboxCount q in
      [api_step ''/v2/domains'' ''GET'' [] ''List domains'',
       note_step ''compute'' ''Filter domains with 0 mailboxes, choose target domains'',
       api_step ''/v2/mailboxes'' ''POST''
         [(''bodyFrom'', JStr ''createMailboxesForZeroDomains''), (''count'', JNum (Finite (real count)))]
         (''Create '' @ show_nat count @ '' mailboxes/domain''),
       account_step opts ''placeholder@example.com'' ''APP_PASSWORD'' (pick_app q)
         (''Connect '' @ pick_app q)])"
| "steps_for None q opts =
     [note_step ''info'' ''No rule matched. Use dynamic endpoint tools or specify slug/path.'']"

text \<open>The plan for the text of an instruction: everything \<^verbatim>\<open>planFromRules\<close> does after it
  has computed \<^verbatim>\<open>q\<close>.\<close>

definition rules_plan :: "string \<Rightarrow> options \<Rightarrow> plan" where
  "rules_plan q opts = \<lparr>strategy = ''rules'', steps = steps_for (matched_intent q) q opts\<rparr>"

text \<open>\<^verbatim>\<open>String(nl || "").trim()\<close>, which throws when the value has no string.\<close>

definition instruction_text :: "runtime \<Rightarrow> json \<Rightarrow> string option" where
  "instruction_text rt nl = map_option trim (js_String rt (if truthy nl then nl else JStr []))"

definition planFromRules :: "runtime \<Rightarrow> json \<Rightarrow> options \<Rightarrow> thrown + plan" where
  "planFromRules rt nl opts =
     (case instruction_text rt nl of
        None \<Rightarrow> Inl conversion_error
      | Some q \<Rightarrow> Inr (rules_plan q opts))"

text \<open>What identifies a step: its \<^verbatim>\<open>action\<close>, and for an api step the operation it calls.\<close>

definition action_of :: "json \<Rightarrow> json option" where
  "action_of step = get_prop (Some step) ''action''"

definition is_api_step :: "json \<Rightarrow> bool" where
  "is_api_step step = (action_of step = Some (JStr ''api''))"

subsection \<open>What the planner is expected to recognise\<close>


definition splits :: "string \<Rightarrow> (string \<times> string) list" where
  "splits s = map (\<lambda>i. (take i s, drop i s)) [0 ..< Suc (length s)]"





section \<open>The optional LLM planner and the choice of plan (planFromLLM, plan_and_execute)\<close>

text \<open>
  What the call to the completion service can do: \<^verbatim>\<open>fetch\<close> throws (network error),
  \<^verbatim>\<open>res.json()\<close> throws (the body is not JSON), or the body is a JSON value. Everything
  \<^verbatim>\<open>planFromLLM\<close> does after building the prompt is inside one \<^verbatim>\<open>try\<close> whose \<^verbatim>\<open>catch\<close> returns
  the plan marked \<^verbatim>\<open>llm-failed\<close>.
\<close>

datatype llm_reply = LlmFetchThrows | LlmBodyNotJson | LlmBody json

definition llm_failed :: plan where
  "llm_failed = \<lparr>strategy = ''llm-failed'',
                  steps = [note_step ''info'' ''LLM planning failed; fallback to rules.'']\<rparr>"

definition llm_content :: "json \<Rightarrow> json option" where
  "llm_content data =
     get_prop (get_prop (index0 (get_prop (Some data) ''choices'')) ''message'') ''content''"

text \<open>\<^verbatim>\<open>data?.choices?.[0]?.message?.content || "{}"\<close>, as \<^verbatim>\<open>JSON.parse\<close> reads it.\<close>

definition llm_text :: "runtime \<Rightarrow> json \<Rightarrow> string option" where
  "llm_text rt data =
     (case llm_content data of
        None \<Rightarrow> Some ''{}''
      | Some c \<Rightarrow> if truthy c then js_String rt c else Some ''{}'')"

text \<open>A content that has no string makes \<^verbatim>\<open>JSON.parse\<close> throw a \<^verbatim>\<open>TypeError\<close>; reading
  \<^verbatim>\<open>json.steps\<close> of \<^verbatim>\<open>null\<close> throws one too; steps that are not an array throw
  \<^verbatim>\<open>Invalid LLM plan\<close>. All are caught. The prompt is built before the \<^verbatim>\<open>try\<close>, from the
  instruction, which is a string when the handler calls the planner.\<close>

definition planFromLLM :: "runtime \<Rightarrow> llm_reply \<Rightarrow> plan" where
  "planFromLLM rt reply =
     (case reply of
        LlmFetchThrows \<Rightarrow> llm_failed
      | LlmBodyNotJson \<Rightarrow> llm_failed
      | LlmBody data \<Rightarrow>
          (case llm_text rt data of
             None \<Rightarrow> llm_failed
           | Some text \<Rightarrow>
               (case JSON_parse rt text of
                  None \<Rightarrow> llm_failed
                | Some json \<Rightarrow>
                    (case get_prop (Some json) ''steps'' of
                       Some (JArr xs) \<Rightarrow> \<lparr>strategy = ''llm'', steps = xs\<rparr>
                     | _ \<Rightarrow> llm_failed))))"

text \<open>
  The handler of \<^verbatim>\<open>plan_and_execute\<close> up to the dry-run answer. It rejects an instruction
  that is missing, empty or not a string, plans by the rules, and takes the plan of the LLM
  instead only when the LLM planner is enabled and its plan has steps and is not marked
  \<^verbatim>\<open>llm-failed\<close>. With \<^verbatim>\<open>execute\<close> false it answers with the chosen plan.
\<close>

record dry_run =
  mode :: string
  dry_strategy :: string
  dry_steps :: "json list"

definition choose_plan ::
  "runtime \<Rightarrow> bool \<Rightarrow> llm_reply \<Rightarrow> json \<Rightarrow> options \<Rightarrow> thrown + plan" where
  "choose_plan rt llmPlanner reply instruction opts =
     (case planFromRules rt instruction opts of
        Inl e \<Rightarrow> Inl e
      | Inr rulePlan \<Rightarrow>
          Inr (if llmPlanner
               then (let llm = planFromLLM rt reply in
                     if steps llm \<noteq> [] \<and> strategy llm \<noteq> ''llm-failed'' then llm else rulePlan)
               else rulePlan))"

definition instruction_required :: thrown where
  "instruction_required = NativeError ''Error'' '''instruction' is required''"

definition plan_and_execute_dry ::
  "runtime \<Rightarrow> bool \<Rightarrow> llm_reply \<Rightarrow> json \<Rightarrow> options \<Rightarrow> thrown + dry_run" where
  "plan_and_execute_dry rt llmPlanner reply instruction opts =
     (case instruction of
        JStr s \<Rightarrow>
          if s = [] then Inl instruction_required
          else (case choose_plan rt llmPlanner reply instruction opts of
                  Inl e \<Rightarrow> Inl e
                | Inr plan \<Rightarrow>
                    Inr \<lparr>mode = ''dry-run'', dry_strategy = strategy plan, dry_steps = steps plan\<rparr>)
      | _ \<Rightarrow> Inl instruction_required)"

text \<open>A runtime for running the model on concrete inputs: it parses the response bodies used
  below and nothing else, and its other conversions are not reached on those inputs.\<close>

definition demo_bodies :: "(string \<times> json) list" where
  \<open>demo_bodies =
     [(''{}'', JObj []),
      (''{"ok":true}'', JObj [(''ok'', JBool True)]),
      (''{"message":"slow down"}'', JObj [(''message'', JStr ''slow down'')]),
      (''{"message":{"toString":0}}'',
         JObj [(''message'', JObj [(''toString'', JNum (Finite 0))])]),
      (''{"walletBalance":100}'', JObj [(''walletBalance'', JNum (Finite 100))]),
      (''{"walletBalance":200}'', JObj [(''walletBalance'', JNum (Finite 200))]),
      (''{"availableDomains":[{"domainName":"a.com","domainPrice":100}]}'',
         JObj [(''availableDomains'',
                JArr [JObj [(''domainName'', JStr ''a.com''), (''domainPrice'', JNum (Finite 100))]])]),
      (''{"availableDomains":[{"domainName":"b.com","domainPrice":50}]}'',
         JObj [(''availableDomains'',
                JArr [JObj [(''domainName'', JStr ''b.com''), (''domainPrice'', JNum (Finite 50))]])]),
      (''{"paymentLink":"x"}'', JObj [(''paymentLink'', JStr ''x'')])]\<close>

definition demo_runtime :: runtime where
  "demo_runtime =
     \<lparr>JSON_parse = Map_get demo_bodies,
      JSON_stringify = (\<lambda>v. ''json''),
      Number_toString = (\<lambda>n. ''number''),
      StringToNumber = (\<lambda>s. NaN),
      String_toUpperCase = map toUpperCase_char\<rparr>"

definition no_options :: options where
  "no_options = \<lparr>email = None, password = None\<rparr>"

section \<open>Errors and input validation (ZapmailError, validateRequired, validateString)\<close>

text \<open>The name and the code by which a caller tells the errors apart.\<close>

fun error_name :: "thrown \<Rightarrow> string" where
  "error_name (ValidationError _ _ _) = ''ValidationError''"
| "error_name (ApiError _ _ _) = ''ApiError''"
| "error_name (NativeError name _) = name"

fun error_code :: "thrown \<Rightarrow> string option" where
  "error_code (ValidationError _ _ _) = Some ''VALIDATION_ERROR''"
| "error_code (ApiError _ _ _) = Some ''API_ERROR''"
| "error_code (NativeError _ _) = None"

definition validateRequired :: "json \<Rightarrow> string \<Rightarrow> thrown + json" where
  "validateRequired v fieldName =
     (if v = JNull \<or> v = JStr [] then Inl (ValidationError (fieldName @ '' is required'') fieldName v)
      else Inr v)"

definition validateString :: "json \<Rightarrow> string \<Rightarrow> thrown + string" where
  "validateString v fieldName =
     (case validateRequired v fieldName of
        Inl e \<Rightarrow> Inl e
      | Inr validated \<Rightarrow>
          (case validated of
             JStr s \<Rightarrow>
               if length s > 1000
               then Inl (ValidationError (fieldName @ '' exceeds maximum length of 1000'') fieldName validated)
               else Inr s
           | _ \<Rightarrow> Inl (ValidationError (fieldName @ '' must be a string'') fieldName validated)))"

section \<open>The request executor (src/index.js, getApiKey, buildHeaders, apiFetch)\<close>

text \<open>What the program reads from its environment at start: the two names of the credential,
  \<^verbatim>\<open>API_BASE\<close>, the \<^verbatim>\<open>CONTEXT\<close> (workspace and provider) and \<^verbatim>\<open>CONFIG.maxRetries\<close>.\<close>

record config =
  ZAPMAIL_API_KEY :: "string option"
  ZAPMAIL_API_TOKEN :: "string option"
  API_BASE :: string
  workspaceKey :: "string option"
  serviceProvider :: string
  CONFIG_maxRetries :: int

text \<open>\<^verbatim>\<open>env.ZAPMAIL_API_KEY || env.ZAPMAIL_API_TOKEN\<close>, trimmed; \<^verbatim>\<open>null\<close> when neither is set.\<close>

definition getApiKey :: "config \<Rightarrow> string option" where
  "getApiKey cfg =
     (let key = (case ZAPMAIL_API_KEY cfg of
                   Some k \<Rightarrow> if k \<noteq> [] then Some k else ZAPMAIL_API_TOKEN cfg
                 | None \<Rightarrow> ZAPMAIL_API_TOKEN cfg)
      in case key of None \<Rightarrow> None | Some k \<Rightarrow> if k \<noteq> [] then Some (trim k) else None)"

text \<open>An object of string properties, and the spread \<^verbatim>\<open>{...a, ...b}\<close>.\<close>

type_synonym headers = "(string \<times> string) list"

definition spread :: "headers \<Rightarrow> headers \<Rightarrow> headers" where
  "spread a b = foldl (\<lambda>acc kv. Map_set (fst kv) (snd kv) acc) a b"

definition buildHeaders :: "runtime \<Rightarrow> config \<Rightarrow> headers \<Rightarrow> headers" where
  "buildHeaders rt cfg overrides =
     (let apiKey = getApiKey cfg;
          hs = [(''content-type'', ''application/json''),
                (''x-auth-zapmail'', (case apiKey of None \<Rightarrow> [] | Some k \<Rightarrow> k)),
                (''user-agent'', ''zapmail-mcp-server/2.0'')];
          ws = (case Map_get overrides ''workspaceKey'' of Some w \<Rightarrow> Some w | None \<Rightarrow> workspaceKey cfg);
          sp = String_toUpperCase rt (case Map_get overrides ''serviceProvider'' of
                              Some s \<Rightarrow> s | None \<Rightarrow> serviceProvider cfg);
          hs1 = (case ws of None \<Rightarrow> hs | Some w \<Rightarrow> if w \<noteq> [] then hs @ [(''x-workspace-key'', w)] else hs)
      in if sp \<noteq> [] then hs1 @ [(''x-service-provider'', sp)] else hs1)"

text \<open>
  A request as \<^verbatim>\<open>fetch\<close> receives it, and what comes back: a response with its status, status
  text and body text, or an exception. The service is a function of the request and of the
  number of requests made before it; with each outcome it tells how long the call took.
  A call that outlasts \<^verbatim>\<open>timeoutMs\<close> is aborted, which is one of the exceptions.
\<close>

record request =
  req_method :: string
  req_url :: string
  req_query :: "(string \<times> string) list"
  req_headers :: headers
  req_body :: "string option"

record response =
  status :: nat
  statusText :: string
  body_text :: string

datatype outcome = Responds response | Throws string string

type_synonym service = "request \<Rightarrow> nat \<Rightarrow> outcome \<times> int"

definition ok :: "response \<Rightarrow> bool" where
  "ok resp = (200 \<le> status resp \<and> status resp \<le> 299)"

text \<open>
  The state the executor works on: the clock that \<^verbatim>\<open>Date.now()\<close> reads, the shared rate
  limiter, the shared cache (absent when caching is disabled), and the record of what was done
  to the outside: each sleep with the time asked for, each request sent. The clock advances by
  the time a sleep asks for and by the time a request takes. Logging and metrics write to
  objects that nothing reads back, and are left out.
\<close>

datatype event = EvSleep int | EvSleepInfinity | EvFetch request

record world =
  clock :: int
  limiter :: RateLimiter
  shared_cache :: "(string, json) Cache option"
  events :: "event list"

definition fetch_count :: "world \<Rightarrow> nat" where
  "fetch_count w = length (filter (\<lambda>e. case e of EvFetch _ \<Rightarrow> True | _ \<Rightarrow> False) (events w))"

definition sleeps :: "world \<Rightarrow> int list" where
  "sleeps w = concat (map (\<lambda>e. case e of EvSleep d \<Rightarrow> [d] | _ \<Rightarrow> []) (events w))"

definition sleep :: "int \<Rightarrow> world \<Rightarrow> world" where
  "sleep d w = w\<lparr>clock := clock w + max d 0, events := events w @ [EvSleep d]\<rparr>"

definition sleep_wait :: "wait \<Rightarrow> world \<Rightarrow> world" where
  "sleep_wait wt w =
     (case wt of
        NoSleep \<Rightarrow> w
      | Sleep d \<Rightarrow> sleep d w
      | SleepInfinity \<Rightarrow> w\<lparr>clock := clock w + 1, events := events w @ [EvSleepInfinity]\<rparr>)"

definition do_fetch :: "service \<Rightarrow> request \<Rightarrow> world \<Rightarrow> outcome \<times> world" where
  "do_fetch srv req w =
     (let (out, took) = srv req (fetch_count w)
      in (out, w\<lparr>clock := clock w + max took 0, events := events w @ [EvFetch req]\<rparr>))"

text \<open>The body as \<^verbatim>\<open>apiFetch\<close> reads it: \<^verbatim>\<open>null\<close> for an empty body and for one that
  \<^verbatim>\<open>JSON.parse\<close> rejects.\<close>

definition parse_body :: "runtime \<Rightarrow> string \<Rightarrow> json" where
  "parse_body rt text =
     (if text = [] then JNull else (case JSON_parse rt text of None \<Rightarrow> JNull | Some j \<Rightarrow> j))"

text \<open>\<^verbatim>\<open>json?.message || resp.statusText || text\<close>, as the template literal prints it:
  \<open>None\<close> when the message is a value that has no string.\<close>

definition error_msg :: "runtime \<Rightarrow> json \<Rightarrow> response \<Rightarrow> string option" where
  "error_msg rt json resp =
     (case get_prop (Some json) ''message'' of
        Some m \<Rightarrow> if truthy m then js_String rt m
                  else Some (if statusText resp \<noteq> [] then statusText resp else body_text resp)
      | None \<Rightarrow> Some (if statusText resp \<noteq> [] then statusText resp else body_text resp))"

text \<open>What the two lines under \<^verbatim>\<open>if (!resp.ok)\<close> throw: the \<^verbatim>\<open>ApiError\<close>, or the
  \<^verbatim>\<open>TypeError\<close> of the template literal when the message has no string.\<close>

definition api_error :: "runtime \<Rightarrow> response \<Rightarrow> thrown" where
  "api_error rt resp =
     (let json = parse_body rt (body_text resp)
      in case error_msg rt json resp of
           None \<Rightarrow> conversion_error
         | Some msg \<Rightarrow> ApiError (''HTTP '' @ show_nat (status resp) @ '': '' @ msg) (status resp) json)"

definition cache_store :: "string option \<Rightarrow> json \<Rightarrow> world \<Rightarrow> world" where
  "cache_store cacheKey result w =
     (case (cacheKey, shared_cache w) of
        (Some key, Some c) \<Rightarrow> w\<lparr>shared_cache := Some (Cache_set c key result (clock w))\<rparr>
      | _ \<Rightarrow> w)"

text \<open>
  One pass of the \<^verbatim>\<open>for\<close> loop, after the request has come back: retry after a delay, leave
  with an exception, or return a value. The exception for a response that is not ok is
  thrown inside the \<^verbatim>\<open>try\<close> of the attempt, so the \<^verbatim>\<open>catch\<close> of the attempt handles it as
  it handles an exception of \<^verbatim>\<open>fetch\<close>: it rethrows on the last attempt and otherwise sleeps
  \<^verbatim>\<open>700 * (attempt + 1)\<close> and goes on.
\<close>

datatype verdict = Retry int | Fail thrown | Return json

definition caught :: "int \<Rightarrow> int \<Rightarrow> thrown \<Rightarrow> verdict" where
  "caught maxRetries attempt err =
     (if attempt = maxRetries then Fail err else Retry (700 * (attempt + 1)))"

definition judge :: "runtime \<Rightarrow> int \<Rightarrow> int \<Rightarrow> outcome \<Rightarrow> verdict" where
  "judge rt maxRetries attempt out =
     (case out of
        Throws name msg \<Rightarrow> caught maxRetries attempt (NativeError name msg)
      | Responds resp \<Rightarrow>
          if (status resp = 429 \<or> status resp \<ge> 500) \<and> attempt < maxRetries
          then Retry (min (2500 * (attempt + 1)) 9000)
          else if \<not> ok resp then caught maxRetries attempt (api_error rt resp)
          else (let json = parse_body rt (body_text resp)
                in Return (if json = JNull then JObj [(''raw'', JStr (body_text resp))] else json)))"

text \<open>
  The loop. Its result is the exception that leaves \<^verbatim>\<open>apiFetch\<close>, or the returned value;
  \<open>None\<close> is \<^verbatim>\<open>undefined\<close>, which the function returns when the loop ends without an
  attempt, as it does for a negative \<^verbatim>\<open>maxRetries\<close>. \<open>cacheKey\<close> is present when the call
  is a \<^verbatim>\<open>GET\<close>; a returned value is then stored in the cache, if there is one.
\<close>

function attempts ::
  "runtime \<Rightarrow> service \<Rightarrow> request \<Rightarrow> string option \<Rightarrow> int \<Rightarrow> int \<Rightarrow> world
     \<Rightarrow> (thrown + json option) \<times> world" where
  "attempts rt srv req cacheKey maxRetries attempt w =
     (if \<not> attempt \<le> maxRetries then (Inr None, w)
      else
        (case judge rt maxRetries attempt (fst (do_fetch srv req w)) of
           Retry delay \<Rightarrow>
             attempts rt srv req cacheKey maxRetries (attempt + 1)
               (sleep delay (snd (do_fetch srv req w)))
         | Fail err \<Rightarrow> (Inl err, snd (do_fetch srv req w))
         | Return result \<Rightarrow>
             (Inr (Some result), cache_store cacheKey result (snd (do_fetch srv req w)))))"
  by pat_completeness auto
termination
  by (relation "measure (\<lambda>(rt, srv, req, cacheKey, maxRetries, attempt, w). nat (maxRetries - attempt + 1))")
    auto

declare attempts.simps [simp del]

text \<open>The entries of \<^verbatim>\<open>query\<close> that go into the URL: those whose value is neither \<^verbatim>\<open>null\<close>
  nor \<^verbatim>\<open>undefined\<close>, as strings, in the order of \<^verbatim>\<open>Object.entries\<close>. \<open>None\<close> when a value
  has no string and \<^verbatim>\<open>String\<close> throws.\<close>

fun add_params ::
  "runtime \<Rightarrow> (string \<times> json) list \<Rightarrow> (string \<times> string) list \<Rightarrow> (string \<times> string) list option" where
  "add_params rt [] acc = Some acc"
| "add_params rt (kv # kvs) acc =
     (if snd kv = JNull then add_params rt kvs acc
      else (case js_String rt (snd kv) of
              None \<Rightarrow> None
            | Some s \<Rightarrow> add_params rt kvs (Map_set (fst kv) s acc)))"

definition query_entries :: "runtime \<Rightarrow> json option \<Rightarrow> (string \<times> string) list option" where
  "query_entries rt query =
     (case query of
        Some (JObj ps) \<Rightarrow> add_params rt ps []
      | Some (JArr xs) \<Rightarrow> add_params rt (zip (map show_nat [0 ..< length xs]) xs) []
      | _ \<Rightarrow> Some [])"

definition cache_key :: "runtime \<Rightarrow> string \<Rightarrow> string \<Rightarrow> json option \<Rightarrow> string" where
  "cache_key rt method path query =
     method @ '':'' @ path @ '':'' @
       JSON_stringify rt (case query of None \<Rightarrow> JObj [] | Some v \<Rightarrow> if truthy v then v else JObj [])"

record fetch_options =
  opt_method :: "json option"
  opt_headers :: headers
  opt_query :: "json option"
  opt_body :: "json option"
  opt_maxRetries :: "int option"

text \<open>The stages of \<^verbatim>\<open>apiFetch\<close> after the validation of its inputs: the rate limiter, the
  cache (for a \<^verbatim>\<open>GET\<close>, when there is a cache; a cached value that is falsy counts as a
  miss), the credential, the request, the loop.\<close>

definition rate_gate :: "world \<Rightarrow> world" where
  "rate_gate w =
     (let (wt, rl) = checkLimit (limiter w) ''api'' (clock w)
      in sleep_wait wt (w\<lparr>limiter := rl\<rparr>))"

definition cache_lookup :: "string \<Rightarrow> string \<Rightarrow> world \<Rightarrow> json option \<times> world" where
  "cache_lookup method key w =
     (case shared_cache w of
        None \<Rightarrow> (None, w)
      | Some c \<Rightarrow>
          if method = ''GET''
          then (let (cached, c') = Cache_get c key (clock w)
                in ((case cached of
                       Some v \<Rightarrow> if truthy v then Some v else None
                     | None \<Rightarrow> None),
                    w\<lparr>shared_cache := Some c'\<rparr>))
          else (None, w))"

text \<open>The request: the URL is the base and the path put together (\<^verbatim>\<open>new URL\<close> is taken to
  leave it as written, and the base to be a valid URL), with the query entries kept beside
  it. \<open>None\<close> when an entry of the query has no string.\<close>

definition build_request ::
  "runtime \<Rightarrow> config \<Rightarrow> string \<Rightarrow> string \<Rightarrow> fetch_options \<Rightarrow> request option" where
  "build_request rt cfg method path opts =
     (case query_entries rt (opt_query opts) of
        None \<Rightarrow> None
      | Some entries \<Rightarrow>
          Some \<lparr>req_method = method,
                req_url = API_BASE cfg @ (if take 1 path = ''/'' then path else ''/'' @ path),
                req_query = entries,
                req_headers = spread (buildHeaders rt cfg (opt_headers opts)) (opt_headers opts),
                req_body = (case opt_body opts of
                              None \<Rightarrow> None
                            | Some b \<Rightarrow> if b \<noteq> JNull \<and> method \<noteq> ''GET''
                                        then Some (JSON_stringify rt b) else None)\<rparr>)"

definition missing_key :: thrown where
  "missing_key = ValidationError ''ZAPMAIL_API_KEY not configured'' ''apiKey'' JNull"

definition send ::
  "runtime \<Rightarrow> config \<Rightarrow> service \<Rightarrow> string \<Rightarrow> string \<Rightarrow> fetch_options \<Rightarrow> world
     \<Rightarrow> (thrown + json option) \<times> world" where
  "send rt cfg srv method path opts w =
     (let key = cache_key rt method path (opt_query opts);
          (hit, w2) = cache_lookup method key (rate_gate w)
      in case hit of
           Some v \<Rightarrow> (Inr (Some v), w2)
         | None \<Rightarrow>
             if getApiKey cfg = None \<or> getApiKey cfg = Some [] then (Inl missing_key, w2)
             else (case build_request rt cfg method path opts of
                     None \<Rightarrow> (Inl conversion_error, w2)
                   | Some req \<Rightarrow>
                       attempts rt srv req (if method = ''GET'' then Some key else None)
                         (case opt_maxRetries opts of None \<Rightarrow> CONFIG_maxRetries cfg | Some n \<Rightarrow> n)
                         0 w2))"

definition apiFetch ::
  "runtime \<Rightarrow> config \<Rightarrow> service \<Rightarrow> json \<Rightarrow> fetch_options \<Rightarrow> world
     \<Rightarrow> (thrown + json option) \<times> world" where
  "apiFetch rt cfg srv path opts w =
     (case validateString path ''path'' of
        Inl e \<Rightarrow> (Inl e, w)
      | Inr path_s \<Rightarrow>
          (case validateString (case opt_method opts of None \<Rightarrow> JStr ''GET'' | Some m \<Rightarrow> m)
                  ''method'' of
             Inl e \<Rightarrow> (Inl e, w)
           | Inr method \<Rightarrow> send rt cfg srv method path_s opts w))"

section \<open>Composite operations (invokeSlug, getWalletBalance, purchaseDomains)\<close>

definition default_options :: fetch_options where
  "default_options =
     \<lparr>opt_method = None, opt_headers = [], opt_query = None, opt_body = None, opt_maxRetries = None\<rparr>"

text \<open>
  \<^verbatim>\<open>invokeSlug\<close> as the composite operations call it, with the method and the path given
  and no path parameters: the documentation of the slug is not fetched then. The path gets a
  leading slash and loses a leading \<^verbatim>\<open>/api/\<close>, the method is upper-cased.
\<close>

definition strip_api :: "string \<Rightarrow> string" where
  "strip_api p = (if map toUpperCase_char (take 5 p) = ''/API/'' then ''/'' @ drop 5 p else p)"

definition invokeSlug ::
  "runtime \<Rightarrow> config \<Rightarrow> service \<Rightarrow> string \<Rightarrow> string \<Rightarrow> json \<Rightarrow> headers \<Rightarrow> world
     \<Rightarrow> (thrown + json option) \<times> world" where
  "invokeSlug rt cfg srv method path body hs w =
     (let p = strip_api (if take 1 path = ''/'' then path else ''/'' @ path)
      in apiFetch rt cfg srv (JStr p)
           (default_options\<lparr>opt_method := Some (JStr (String_toUpperCase rt method)),
                            opt_body := Some body, opt_headers := hs\<rparr>) w)"

text \<open>The headers a composite operation passes on: the workspace and the provider of the
  call, or else those of the \<^verbatim>\<open>CONTEXT\<close>, each left out when empty.\<close>

definition context_headers ::
  "runtime \<Rightarrow> config \<Rightarrow> string option \<Rightarrow> string option \<Rightarrow> headers" where
  "context_headers rt cfg ws sp =
     (let ws' = (case ws of Some x \<Rightarrow> Some x | None \<Rightarrow> workspaceKey cfg);
          sp' = (case sp of Some x \<Rightarrow> x | None \<Rightarrow> serviceProvider cfg)
      in (case ws' of Some x \<Rightarrow> if x \<noteq> [] then [(''x-workspace-key'', x)] else [] | None \<Rightarrow> [])
         @ (if sp' \<noteq> [] then [(''x-service-provider'', String_toUpperCase rt sp')] else []))"

definition getWalletBalance ::
  "runtime \<Rightarrow> config \<Rightarrow> service \<Rightarrow> world \<Rightarrow> (thrown + number) \<times> world" where
  "getWalletBalance rt cfg srv w =
     (case apiFetch rt cfg srv (JStr ''/v2/wallet/balance'')
             (default_options\<lparr>opt_method := Some (JStr ''GET'')\<rparr>) w of
        (Inl e, w') \<Rightarrow> (Inl e, w')
      | (Inr data, w') \<Rightarrow>
          (Inr (case get_prop data ''walletBalance'' of
                  Some (JNum x) \<Rightarrow> x
                | _ \<Rightarrow>
                 (case get_prop data ''balance'' of
                    Some (JNum x) \<Rightarrow> x
                  | _ \<Rightarrow>
                   (case get_prop (get_prop data ''data'') ''walletBalance'' of
                      Some (JNum x) \<Rightarrow> x
                    | _ \<Rightarrow> Finite 0))), w'))"

definition checkDomainAvailabilitySingle ::
  "runtime \<Rightarrow> config \<Rightarrow> service \<Rightarrow> string \<Rightarrow> number \<Rightarrow> string option \<Rightarrow> string option \<Rightarrow> world
     \<Rightarrow> (thrown + json option) \<times> world" where
  "checkDomainAvailabilitySingle rt cfg srv domainName years ws sp w =
     invokeSlug rt cfg srv ''POST'' ''/v2/domains/available''
       (JObj [(''domainName'', JStr domainName), (''years'', JNum years)])
       (context_headers rt cfg ws sp) w"

text \<open>\<^verbatim>\<open>Number(v)\<close> with its exception, and the numbers that count as false.\<close>

definition to_number :: "runtime \<Rightarrow> json \<Rightarrow> thrown + number" where
  "to_number rt v = (case js_Number rt v of None \<Rightarrow> Inl conversion_error | Some n \<Rightarrow> Inr n)"

definition falsy_number :: "number \<Rightarrow> bool" where
  "falsy_number n = (n = Finite 0 \<or> n = NaN)"

text \<open>
  The price of one domain, read from the availability answer: the price of the listed domain
  with the same name (compared in lower case), else of the first listed domain, and when that
  gives nothing (zero or \<^verbatim>\<open>NaN\<close>) the \<^verbatim>\<open>price\<close> of the answer or of its \<^verbatim>\<open>data\<close>, else 0.
  A price that is an object without a number makes \<^verbatim>\<open>Number\<close> throw.
\<close>

definition listed_price :: "runtime \<Rightarrow> string \<Rightarrow> json option \<Rightarrow> thrown + number" where
  "listed_price rt d avail =
     (let a = get_prop avail ''availableDomains'';
          lst = (if truthy_opt a then a else get_prop (get_prop avail ''data'') ''availableDomains'')
      in case lst of
           Some (JArr (x # xs)) \<Rightarrow>
             (let first_price = (case get_prop (Some x) ''domainPrice'' of
                                   Some p \<Rightarrow> to_number rt p
                                 | None \<Rightarrow> Inr (Finite 0))
              in case find (\<lambda>item. case get_prop (Some item) ''domainName'' of
                                     Some (JStr n) \<Rightarrow> toLowerCase n = toLowerCase d
                                   | _ \<Rightarrow> False) (x # xs) of
                   Some match \<Rightarrow>
                     (case get_prop (Some match) ''domainPrice'' of
                        Some p \<Rightarrow> to_number rt p
                      | None \<Rightarrow> first_price)
                 | None \<Rightarrow> first_price)
         | _ \<Rightarrow> Inr (Finite 0))"

definition resolve_price :: "runtime \<Rightarrow> string \<Rightarrow> json option \<Rightarrow> thrown + number" where
  "resolve_price rt d avail =
     (case listed_price rt d avail of
        Inl e \<Rightarrow> Inl e
      | Inr price \<Rightarrow>
          if falsy_number price
          then to_number rt
                 (if \<not> nullish (get_prop avail ''price'') then the (get_prop avail ''price'')
                  else if \<not> nullish (get_prop (get_prop avail ''data'') ''price'')
                  then the (get_prop (get_prop avail ''data'') ''price'')
                  else JNum (Finite 0))
          else Inr price)"

text \<open>\<^verbatim>\<open>price || 0\<close>\<close>

definition or_zero :: "number \<Rightarrow> number" where
  "or_zero p = (if falsy_number p then Finite 0 else p)"

text \<open>
  The arithmetic of doubles that \<^verbatim>\<open>purchaseDomains\<close> uses: the rounded sum, the rounded
  product and the comparison \<^verbatim>\<open>>=\<close> (false when an operand is \<^verbatim>\<open>NaN\<close>). They are parameters
  of the model, and nothing is assumed of them.
\<close>

record arith =
  num_add :: "number \<Rightarrow> number \<Rightarrow> number"
  num_mul :: "number \<Rightarrow> number \<Rightarrow> number"
  num_ge :: "number \<Rightarrow> number \<Rightarrow> bool"

record spec =
  spec_domainName :: string
  spec_years :: number
  spec_price :: number

text \<open>The first loop of \<^verbatim>\<open>purchaseDomains\<close>: one availability call per domain, in order,
  adding \<^verbatim>\<open>(price || 0) * years\<close> to the total. An exception of a call or of the reading of
  a price ends the operation.\<close>

fun price_loop ::
  "runtime \<Rightarrow> arith \<Rightarrow> config \<Rightarrow> service \<Rightarrow> string list \<Rightarrow> number \<Rightarrow> string option \<Rightarrow> string option
     \<Rightarrow> number \<Rightarrow> spec list \<Rightarrow> world \<Rightarrow> (thrown + number \<times> spec list) \<times> world" where
  "price_loop rt ar cfg srv [] years ws sp tot specs w = (Inr (tot, specs), w)"
| "price_loop rt ar cfg srv (d # ds) years ws sp tot specs w =
     (case checkDomainAvailabilitySingle rt cfg srv d years ws sp w of
        (Inl e, w') \<Rightarrow> (Inl e, w')
      | (Inr avail, w') \<Rightarrow>
          (case resolve_price rt d avail of
             Inl e \<Rightarrow> (Inl e, w')
           | Inr price \<Rightarrow>
               price_loop rt ar cfg srv ds years ws sp
                 (num_add ar tot (num_mul ar (or_zero price) years))
                 (specs @ [\<lparr>spec_domainName = d, spec_years = years, spec_price = price\<rparr>]) w'))"

text \<open>
  The price loop read without its sums: the prices of the domains, in their order, each
  resolved from the answer of the availability call made for that domain in the state that
  the calls before it left; and the total as the loop adds it up from 0, in that order.
\<close>

fun quotes ::
  "runtime \<Rightarrow> config \<Rightarrow> service \<Rightarrow> string list \<Rightarrow> number \<Rightarrow> string option \<Rightarrow> string option
     \<Rightarrow> world \<Rightarrow> (thrown + number list) \<times> world" where
  "quotes rt cfg srv [] years ws sp w = (Inr [], w)"
| "quotes rt cfg srv (d # ds) years ws sp w =
     (case checkDomainAvailabilitySingle rt cfg srv d years ws sp w of
        (Inl e, w') \<Rightarrow> (Inl e, w')
      | (Inr avail, w') \<Rightarrow>
          (case resolve_price rt d avail of
             Inl e \<Rightarrow> (Inl e, w')
           | Inr price \<Rightarrow>
               (case quotes rt cfg srv ds years ws sp w' of
                  (Inl e, w'') \<Rightarrow> (Inl e, w'')
                | (Inr prices, w'') \<Rightarrow> (Inr (price # prices), w''))))"

declare quotes.simps [simp del]

definition add_cost :: "arith \<Rightarrow> number \<Rightarrow> number \<Rightarrow> number \<Rightarrow> number" where
  "add_cost ar years tot price = num_add ar tot (num_mul ar (or_zero price) years)"

definition total_of :: "arith \<Rightarrow> number \<Rightarrow> number list \<Rightarrow> number" where
  "total_of ar years prices = foldl (add_cost ar years) (Finite 0) prices"

record purchase =
  useWallet :: bool
  total_cost :: number
  result :: "json option"

definition purchase_payload :: "spec list \<Rightarrow> bool \<Rightarrow> json" where
  "purchase_payload specs use =
     JObj [(''domains'', JArr (map (\<lambda>s. JObj [(''domainName'', JStr (spec_domainName s)),
                                              (''years'', JNum (spec_years s))]) specs)),
           (''useWallet'', JBool use)]"

definition purchaseDomains ::
  "runtime \<Rightarrow> arith \<Rightarrow> config \<Rightarrow> service \<Rightarrow> string list \<Rightarrow> number \<Rightarrow> bool
     \<Rightarrow> string option \<Rightarrow> string option \<Rightarrow> world \<Rightarrow> (thrown + purchase) \<times> world" where
  "purchaseDomains rt ar cfg srv domains years preferWallet ws sp w =
     (case price_loop rt ar cfg srv domains years ws sp (Finite 0) [] w of
        (Inl e, w1) \<Rightarrow> (Inl e, w1)
      | (Inr (tot, specs), w1) \<Rightarrow>
     (case (if preferWallet
            then (case getWalletBalance rt cfg srv w1 of
                    (Inl e, w2) \<Rightarrow> (Inl e, w2)
                  | (Inr bal, w2) \<Rightarrow> (Inr (num_ge ar bal tot), w2))
            else (Inr False, w1)) of
        (Inl e, w2) \<Rightarrow> (Inl e, w2)
      | (Inr use, w2) \<Rightarrow>
     (case invokeSlug rt cfg srv ''POST'' ''/v2/domains/buy'' (purchase_payload specs use)
             (context_headers rt cfg ws sp) w2 of
        (Inl e, w3) \<Rightarrow> (Inl e, w3)
      | (Inr res, w3) \<Rightarrow> (Inr \<lparr>useWallet = use, total_cost = tot, result = res\<rparr>, w3))))"

section \<open>Concrete settings for running the executor\<close>

definition demo_config :: config where
  "demo_config =
     \<lparr>ZAPMAIL_API_KEY = Some ''secret'', ZAPMAIL_API_TOKEN = None,
      API_BASE = ''https://api.zapmail.ai/api'', workspaceKey = None,
      serviceProvider = ''GOOGLE'', CONFIG_maxRetries = 3\<rparr>"

definition no_key_config :: config where
  "no_key_config = demo_config\<lparr>ZAPMAIL_API_KEY := None\<rparr>"

text \<open>The state at start: the limiter and the cache as the program constructs them
  (\<^verbatim>\<open>new RateLimiter()\<close>, \<^verbatim>\<open>new Cache()\<close>), nothing done yet.\<close>

definition fresh_world :: world where
  "fresh_world =
     \<lparr>clock = 0, limiter = new_RateLimiter 10 60000,
      shared_cache = Some (new_Cache 1000 300000), events = []\<rparr>"


definition throttling_service :: service where
  "throttling_service req n =
     (Responds \<lparr>status = 429, statusText = ''Too Many Requests'',
                body_text = ''upstream busy, try later''\<rparr>, 5)"

definition garbled_service :: service where
  \<open>garbled_service req n =
     (Responds \<lparr>status = 429, statusText = ''Too Many Requests'',
                body_text = ''{"message":{"toString":0}}''\<rparr>, 5)\<close>

definition workspaces_request :: request where
  "workspaces_request =
     \<lparr>req_method = ''GET'', req_url = ''https://api.zapmail.ai/api/v2/workspaces'', req_query = [],
      req_headers = [(''content-type'', ''application/json''), (''x-auth-zapmail'', ''secret''),
                     (''user-agent'', ''zapmail-mcp-server/2.0''), (''x-service-provider'', ''GOOGLE'')],
      req_body = None\<rparr>"

text \<open>The purchase of \<^verbatim>\<open>a.com\<close> and \<^verbatim>\<open>b.com\<close>, priced 100 and 50, with a given wallet
  balance: the service answers by the path of the request, and for the availability path by
  the number of the request.\<close>

definition wallet_100 :: string where
  \<open>wallet_100 = ''{"walletBalance":100}''\<close>

definition wallet_200 :: string where
  \<open>wallet_200 = ''{"walletBalance":200}''\<close>

definition ends_with :: "string \<Rightarrow> string \<Rightarrow> bool" where
  "ends_with s suffix = (drop (length s - length suffix) s = suffix \<and> length suffix \<le> length s)"

definition ok_response :: "string \<Rightarrow> outcome \<times> int" where
  "ok_response body = (Responds \<lparr>status = 200, statusText = ''OK'', body_text = body\<rparr>, 5)"

definition shop_service :: "string \<Rightarrow> service" where
  \<open>shop_service wallet req n =
     (if ends_with (req_url req) ''/v2/wallet/balance'' then ok_response wallet
      else if ends_with (req_url req) ''/v2/domains/buy'' then ok_response ''{"paymentLink":"x"}''
      else if ends_with (req_url req) ''/v2/domains/available''
      then (if n = 0
            then ok_response ''{"availableDomains":[{"domainName":"a.com","domainPrice":100}]}''
            else ok_response ''{"availableDomains":[{"domainName":"b.com","domainPrice":50}]}'')
      else (Throws ''TypeError'' ''fetch failed'', 5))\<close>

text \<open>An arithmetic for running the model: exact on finite numbers, as the arithmetic of
  doubles is on the integers of the purchase above.\<close>

definition exact_arith :: arith where
  "exact_arith =
     \<lparr>num_add = (\<lambda>a b. case (a, b) of (Finite x, Finite y) \<Rightarrow> Finite (x + y) | _ \<Rightarrow> NaN),
      num_mul = (\<lambda>a b. case (a, b) of (Finite x, Finite y) \<Rightarrow> Finite (x * y) | _ \<Rightarrow> NaN),
      num_ge = (\<lambda>a b. case (a, b) of (Finite x, Finite y) \<Rightarrow> x \<ge> y | _ \<Rightarrow> False)\<rparr>"

section \<open>Properties of the cache\<close>

subsection \<open>The insertion-ordered map\<close>

lemma Map_get_set: "Map_get (Map_set k v es) k' = (if k' = k then Some v else Map_get es k')"
  by (induction es) auto

lemma Map_get_delete: "Map_get (Map_delete k es) k' = (if k' = k then None else Map_get es k')"
  by (induction es) auto

lemma keys_Map_delete: "fst ` set (Map_delete k es) = fst ` set es - {k}"
  by (induction es) auto

lemma distinct_Map_delete: "distinct (map fst es) \<Longrightarrow> distinct (map fst (Map_delete k es))"
  by (induction es) (simp_all add: keys_Map_delete)

lemma keys_Map_set: "fst ` set (Map_set k v es) = insert k (fst ` set es)"
  by (induction es) auto

lemma distinct_Map_set: "distinct (map fst es) \<Longrightarrow> distinct (map fst (Map_set k v es))"
  by (induction es) (auto simp: keys_Map_set)

lemma length_Map_delete: "length (Map_delete k es) \<le> length es"
  by (induction es) auto

lemma Map_delete_absent: "k \<notin> fst ` set es \<Longrightarrow> Map_delete k es = es"
  by (induction es) auto

lemma length_Map_set:
  "length (Map_set k v es) = (if k \<in> fst ` set es then length es else Suc (length es))"
  by (induction es) auto

lemma evict_first_tl: "distinct (map fst es) \<Longrightarrow> evict_first es = tl es"
  by (cases es) (auto simp: evict_first_def Map_delete_absent)

lemma distinct_tl_keys: "distinct (map fst es) \<Longrightarrow> distinct (map fst (tl es))"
  by (cases es) auto

subsection \<open>Keys stay distinct, and the size stays within a positive capacity\<close>

lemma Cache_set_ttl_distinct:
  "distinct (map fst (cache c)) \<Longrightarrow> distinct (map fst (cache (Cache_set_ttl c k v t now)))"
  by (simp add: Cache_set_ttl_def Let_def evict_first_tl distinct_tl_keys distinct_Map_set)

lemma Cache_get_distinct:
  "distinct (map fst (cache c)) \<Longrightarrow> distinct (map fst (cache (snd (Cache_get c k now))))"
  by (auto simp: Cache_get_def distinct_Map_delete split: option.splits)

lemma cache_step_distinct:
  "distinct (map fst (cache c)) \<Longrightarrow> distinct (map fst (cache (cache_step c op)))"
  by (cases op) (simp_all add: Cache_set_def Cache_set_ttl_distinct Cache_get_distinct Cache_clear_def)

lemma cache_run_distinct:
  "distinct (map fst (cache c)) \<Longrightarrow> distinct (map fst (cache (cache_run c ops)))"
  unfolding cache_run_def by (induction ops arbitrary: c) (simp_all add: cache_step_distinct)

lemma cache_step_maxSize: "maxSize (cache_step c op) = maxSize c"
  by (cases op) (auto simp: Cache_set_def Cache_set_ttl_def Let_def Cache_get_def Cache_clear_def split: option.splits)

lemma Cache_set_ttl_bound:
  assumes "1 \<le> maxSize c" "distinct (map fst (cache c))" "int (length (cache c)) \<le> maxSize c"
  shows "int (length (cache (Cache_set_ttl c k v t now))) \<le> maxSize c"
proof (cases "int (length (cache c)) \<ge> maxSize c")
  case True
  with assms have ne: "cache c \<noteq> []" by auto
  then have "length (tl (cache c)) = length (cache c) - 1" by simp
  moreover have "length (Map_set k \<lparr>item_value = v, item_expires = now + t\<rparr> (tl (cache c))) \<le> Suc (length (tl (cache c)))"
    by (simp add: length_Map_set)
  ultimately show ?thesis using True assms ne
    by (simp add: Cache_set_ttl_def Let_def evict_first_tl)
next
  case False
  moreover have "length (Map_set k \<lparr>item_value = v, item_expires = now + t\<rparr> (cache c)) \<le> Suc (length (cache c))"
    by (simp add: length_Map_set)
  ultimately show ?thesis by (simp add: Cache_set_ttl_def Let_def)
qed

lemma cache_step_bound:
  assumes "1 \<le> maxSize c" "distinct (map fst (cache c))" "int (length (cache c)) \<le> maxSize c"
  shows "int (length (cache (cache_step c op))) \<le> maxSize c"
proof (cases op)
  case (OpGet k now)
  have "length (Map_delete k (cache c)) \<le> length (cache c)" by (rule length_Map_delete)
  with assms OpGet show ?thesis by (auto simp: Cache_get_def split: option.splits)
qed (use assms in \<open>simp_all add: Cache_set_def Cache_set_ttl_bound Cache_clear_def\<close>)

lemma cache_run_bound:
  "1 \<le> maxSize c \<Longrightarrow> distinct (map fst (cache c)) \<Longrightarrow> int (length (cache c)) \<le> maxSize c
   \<Longrightarrow> int (length (cache (cache_run c ops))) \<le> maxSize c"
  unfolding cache_run_def
proof (induction ops arbitrary: c)
  case Nil then show ?case by simp
next
  case (Cons op ops)
  have "int (length (cache (foldl cache_step (cache_step c op) ops))) \<le> maxSize (cache_step c op)"
    by (rule Cons.IH) (simp_all add: cache_step_maxSize cache_step_distinct cache_step_bound Cons.prems)
  then show ?case by (simp add: cache_step_maxSize)
qed

text \<open>
  Claim C2. A \<^verbatim>\<open>set\<close> followed by a \<^verbatim>\<open>get\<close> of the same key, at any clock reading that is
  not after the entry's expiry (in particular at once, when the TTL is not negative), returns
  the stored value and leaves the cache as it is. A \<^verbatim>\<open>get\<close> at a reading strictly after the
  expiry returns null and deletes the entry; a \<^verbatim>\<open>get\<close> that is not after the expiry returns
  the value and changes nothing, so the expiry is not refreshed. A \<^verbatim>\<open>set\<close> on a cache
  that holds at least \<^verbatim>\<open>maxSize\<close> entries removes the first-inserted entry and no other:
  what remains is the rest of the entries, in their order, with the new key written into it,
  and every other key of the rest still maps to what it did.
\<close>

theorem C2_cache_set_get_expire_evict:
  "(t' \<le> now + t \<longrightarrow> Cache_get (Cache_set_ttl c k v t now) k t' = (Some v, Cache_set_ttl c k v t now))
       \<and> (t' \<le> now + ttl c \<longrightarrow> fst (Cache_get (Cache_set c k v now) k t') = Some v)
       \<and> (Map_get (cache c) k = Some it \<and> t' > item_expires it \<longrightarrow>
             fst (Cache_get c k t') = None
           \<and> cache (snd (Cache_get c k t')) = Map_delete k (cache c)
           \<and> Map_get (cache (snd (Cache_get c k t'))) k = None)
       \<and> (Map_get (cache c) k = Some it \<and> t' \<le> item_expires it \<longrightarrow>
             Cache_get c k t' = (Some (item_value it), c))
       \<and> (int (length (cache c)) \<ge> maxSize c \<and> distinct (map fst (cache c)) \<longrightarrow>
             cache (Cache_set_ttl c k v t now) = Map_set k \<lparr>item_value = v, item_expires = now + t\<rparr> (tl (cache c))
           \<and> (\<forall>k'. k' \<in> fst ` set (tl (cache c)) \<and> k' \<noteq> k \<longrightarrow>
                  Map_get (cache (Cache_set_ttl c k v t now)) k' = Map_get (cache c) k'))"
proof -
  define c' where "c' = Cache_set_ttl c k v t now"
  have get: "Map_get (cache c') k = Some \<lparr>item_value = v, item_expires = now + t\<rparr>"
    by (simp add: c'_def Cache_set_ttl_def Let_def Map_get_set)
  have 1: "t' \<le> now + t \<longrightarrow> Cache_get c' k t' = (Some v, c')"
    by (simp add: Cache_get_def get)
  have 2: "t' \<le> now + ttl c \<longrightarrow> fst (Cache_get (Cache_set c k v now) k t') = Some v"
    by (simp add: Cache_get_def Cache_set_def Cache_set_ttl_def Let_def Map_get_set)
  have 3: "Map_get (cache c) k = Some it \<and> t' > item_expires it \<longrightarrow>
             fst (Cache_get c k t') = None
           \<and> cache (snd (Cache_get c k t')) = Map_delete k (cache c)
           \<and> Map_get (cache (snd (Cache_get c k t'))) k = None"
    by (simp add: Cache_get_def Map_get_delete)
  have 4: "Map_get (cache c) k = Some it \<and> t' \<le> item_expires it \<longrightarrow>
             Cache_get c k t' = (Some (item_value it), c)"
    by (simp add: Cache_get_def)
  have 5: "int (length (cache c)) \<ge> maxSize c \<and> distinct (map fst (cache c)) \<longrightarrow>
             cache c' = Map_set k \<lparr>item_value = v, item_expires = now + t\<rparr> (tl (cache c))
           \<and> (\<forall>k'. k' \<in> fst ` set (tl (cache c)) \<and> k' \<noteq> k \<longrightarrow>
                  Map_get (cache c') k' = Map_get (cache c) k')"
  proof (intro impI conjI allI)
    assume a: "int (length (cache c)) \<ge> maxSize c \<and> distinct (map fst (cache c))"
    then show eq: "cache c' = Map_set k \<lparr>item_value = v, item_expires = now + t\<rparr> (tl (cache c))"
      by (simp add: c'_def Cache_set_ttl_def Let_def evict_first_tl)
    fix k' assume b: "k' \<in> fst ` set (tl (cache c)) \<and> k' \<noteq> k"
    have "Map_get (tl (cache c)) k' = Map_get (cache c) k'"
    proof (cases "cache c")
      case Nil then show ?thesis by simp
    next
      case (Cons p ps)
      with a b have "fst p \<noteq> k'" by auto
      with Cons show ?thesis by simp
    qed
    with b show "Map_get (cache c') k' = Map_get (cache c) k'"
      by (simp add: eq Map_get_set)
  qed
  from 1 2 3 4 5 show ?thesis unfolding c'_def by blast
qed

text \<open>The two-entry cache, computed.\<close>

lemma demo_cache_eq:
  "demo_cache = \<lparr>maxSize = 2, ttl = 300000,
     cache = [(''a'', \<lparr>item_value = 1, item_expires = 300000\<rparr>),
              (''b'', \<lparr>item_value = 2, item_expires = 300010\<rparr>)]\<rparr>"
  by (simp add: demo_cache_def cache_run_def new_Cache_def Cache_set_def Cache_set_ttl_def)

text \<open>The theorem at the two-entry cache: a new key read back at once, the oldest entry read
  one millisecond after and exactly at its expiry, and a third key set at capacity.\<close>

theorem C2_witness:
  "Cache_get (Cache_set_ttl demo_cache ''c'' 3 300000 20) ''c'' 20
     = (Some 3, Cache_set_ttl demo_cache ''c'' 3 300000 20)
   \<and> fst (Cache_get demo_cache ''a'' 300001) = None
   \<and> cache (snd (Cache_get demo_cache ''a'' 300001))
       = [(''b'', \<lparr>item_value = 2, item_expires = 300010\<rparr>)]
   \<and> Cache_get demo_cache ''a'' 300000 = (Some 1, demo_cache)
   \<and> cache (Cache_set_ttl demo_cache ''c'' 3 300000 20)
       = [(''b'', \<lparr>item_value = 2, item_expires = 300010\<rparr>),
          (''c'', \<lparr>item_value = 3, item_expires = 300020\<rparr>)]"
  using C2_cache_set_get_expire_evict [of 20 20 300000 demo_cache "''c''" 3 "\<lparr>item_value = 1, item_expires = 300000\<rparr>"]
    C2_cache_set_get_expire_evict [of 300001 0 0 demo_cache "''a''" 0 "\<lparr>item_value = 1, item_expires = 300000\<rparr>"]
    C2_cache_set_get_expire_evict [of 300000 0 0 demo_cache "''a''" 0 "\<lparr>item_value = 1, item_expires = 300000\<rparr>"]
  by (simp add: demo_cache_eq)

text \<open>
  Claim C9, as stated, fails for a capacity that is not positive: with \<^verbatim>\<open>maxSize = 0\<close> the
  test \<^verbatim>\<open>size >= maxSize\<close> holds on the empty map, \<^verbatim>\<open>keys().next().value\<close> is
  \<^verbatim>\<open>undefined\<close>, nothing is deleted, and the insertion leaves one entry.
\<close>

theorem C9_counterexample:
  "\<not> int (Cache_size (cache_run (new_Cache 0 300000) [OpSet ''a'' (1::nat) 0])) \<le> 0"
  by (simp add: cache_run_def new_Cache_def Cache_set_def Cache_set_ttl_def Cache_size_def evict_first_def)

text \<open>
  Claim C9, amended. For a capacity of at least one, a cache that starts empty never holds more
  than \<^verbatim>\<open>maxSize\<close> entries, whatever sequence of set, get and clear calls it receives.
  A \<^verbatim>\<open>set\<close> on a cache that holds exactly \<^verbatim>\<open>maxSize\<close> entries deletes the first-inserted
  entry before it inserts, also when the key being set is present: the first key is then
  absent (unless it is the key being set), and when the key being set is one of the other
  keys the number of entries goes down by one.
\<close>

theorem C9_cache_size_bound:
  "(1 \<le> m \<longrightarrow> int (Cache_size (cache_run (new_Cache m t0) ops)) \<le> m)
   \<and> (distinct (map fst (cache c)) \<and> int (Cache_size c) = maxSize c \<and> cache c = p # ps \<longrightarrow>
        cache (Cache_set_ttl c k v t now)
          = Map_set k \<lparr>item_value = v, item_expires = now + t\<rparr> ps
      \<and> (fst p \<noteq> k \<longrightarrow> Map_get (cache (Cache_set_ttl c k v t now)) (fst p) = None)
      \<and> (k \<in> fst ` set ps \<longrightarrow> Cache_size (Cache_set_ttl c k v t now) = Cache_size c - 1
            \<and> Cache_size (Cache_set_ttl c k v t now) < Cache_size c))"
proof -
  have 1: "1 \<le> m \<longrightarrow> int (Cache_size (cache_run (new_Cache m t0) ops)) \<le> m"
  proof
    assume m: "1 \<le> m"
    have "int (length (cache (cache_run (new_Cache m t0 :: ('a, 'b) Cache) ops))) \<le> maxSize (new_Cache m t0 :: ('a, 'b) Cache)"
      by (rule cache_run_bound) (use m in \<open>simp_all add: new_Cache_def\<close>)
    then show "int (Cache_size (cache_run (new_Cache m t0) ops)) \<le> m"
      by (simp add: Cache_size_def new_Cache_def)
  qed
  have 2: "distinct (map fst (cache c)) \<and> int (Cache_size c) = maxSize c \<and> cache c = p # ps \<longrightarrow>
        cache (Cache_set_ttl c k v t now)
          = Map_set k \<lparr>item_value = v, item_expires = now + t\<rparr> ps
      \<and> (fst p \<noteq> k \<longrightarrow> Map_get (cache (Cache_set_ttl c k v t now)) (fst p) = None)
      \<and> (k \<in> fst ` set ps \<longrightarrow> Cache_size (Cache_set_ttl c k v t now) = Cache_size c - 1
            \<and> Cache_size (Cache_set_ttl c k v t now) < Cache_size c)"
  proof (intro impI)
    assume a: "distinct (map fst (cache c)) \<and> int (Cache_size c) = maxSize c \<and> cache c = p # ps"
    then have d: "distinct (map fst (cache c))" and sz: "int (length (cache c)) = maxSize c"
      and e: "cache c = p # ps" unfolding Cache_size_def by blast+
    have "evict_first (cache c) = tl (cache c)" by (rule evict_first_tl [OF d])
    with e sz have "evict_first (cache c) = ps" "int (length (cache c)) \<ge> maxSize c"
      by simp_all
    then have eq: "cache (Cache_set_ttl c k v t now)
          = Map_set k \<lparr>item_value = v, item_expires = now + t\<rparr> ps"
      by (simp add: Cache_set_ttl_def Let_def)
    from d e have absent: "fst p \<notin> fst ` set ps" by auto
    have gone: "fst p \<noteq> k \<longrightarrow> Map_get (cache (Cache_set_ttl c k v t now)) (fst p) = None"
    proof
      assume "fst p \<noteq> k"
      moreover have "Map_get ps (fst p) = None"
        using absent by (induction ps) auto
      ultimately show "Map_get (cache (Cache_set_ttl c k v t now)) (fst p) = None"
        by (simp add: eq Map_get_set)
    qed
    have size: "k \<in> fst ` set ps \<longrightarrow> Cache_size (Cache_set_ttl c k v t now) = Cache_size c - 1
            \<and> Cache_size (Cache_set_ttl c k v t now) < Cache_size c"
      using e by (simp add: Cache_size_def eq length_Map_set)
    from eq gone size show "cache (Cache_set_ttl c k v t now)
          = Map_set k \<lparr>item_value = v, item_expires = now + t\<rparr> ps
      \<and> (fst p \<noteq> k \<longrightarrow> Map_get (cache (Cache_set_ttl c k v t now)) (fst p) = None)
      \<and> (k \<in> fst ` set ps \<longrightarrow> Cache_size (Cache_set_ttl c k v t now) = Cache_size c - 1
            \<and> Cache_size (Cache_set_ttl c k v t now) < Cache_size c)"
      by blast
  qed
  from 1 2 show ?thesis by blast
qed

text \<open>The theorem at capacity 2: five calls from the empty cache, and an overwrite of the
  newer key of the full two-entry cache, which leaves one entry.\<close>

theorem C9_witness:
  "int (Cache_size (cache_run (new_Cache 2 300000)
          [OpSet ''a'' (1::nat) 0, OpSet ''b'' 2 10, OpSet ''c'' 3 20, OpGet ''b'' 400000, OpClear])) \<le> 2
   \<and> cache (Cache_set_ttl demo_cache ''b'' 7 300000 30)
        = [(''b'', \<lparr>item_value = 7, item_expires = 300030\<rparr>)]
   \<and> Map_get (cache (Cache_set_ttl demo_cache ''b'' 7 300000 30)) ''a'' = None
   \<and> Cache_size demo_cache = 2
   \<and> Cache_size (Cache_set_ttl demo_cache ''b'' 7 300000 30) = 1"
  using C9_cache_size_bound [of 2 300000 "[OpSet ''a'' (1::nat) 0, OpSet ''b'' 2 10, OpSet ''c'' 3 20, OpGet ''b'' 400000, OpClear]"
      demo_cache "(''a'', \<lparr>item_value = 1, item_expires = 300000\<rparr>)"
      "[(''b'', \<lparr>item_value = 2, item_expires = 300010\<rparr>)]" "''b''" 7 300000 30]
  by (simp add: demo_cache_eq Cache_size_def)

section \<open>Properties of the rate limiter\<close>

lemma recentRequests_stored:
  "recentRequests rl key now = filter (\<lambda>time. time > now - windowMs rl) (stored rl key)"
  by (simp add: recentRequests_def stored_def)

lemma checkLimit_stored:
  "stored (snd (checkLimit rl key now)) key = recentRequests rl key now @ [now]"
  by (simp add: checkLimit_def Let_def stored_def Map_get_set)

lemma checkLimit_params:
  "maxRequests (snd (checkLimit rl key now)) = maxRequests rl"
  "windowMs (snd (checkLimit rl key now)) = windowMs rl"
  by (simp_all add: checkLimit_def Let_def)

lemma checkLimit_NoSleep:
  "int (length (recentRequests rl key now)) < maxRequests rl \<Longrightarrow> fst (checkLimit rl key now) = NoSleep"
  by (simp add: checkLimit_def Let_def)

lemma check_all_Cons:
  "check_all rl key (now # nows) =
     (fst (checkLimit rl key now) # fst (check_all (snd (checkLimit rl key now)) key nows),
      snd (check_all (snd (checkLimit rl key now)) key nows))"
  by (simp add: Let_def split: prod.splits)

lemma check_all_append:
  "check_all rl key (xs @ ys) =
     (fst (check_all rl key xs) @ fst (check_all (snd (check_all rl key xs)) key ys),
      snd (check_all (snd (check_all rl key xs)) key ys))"
  by (induction xs arbitrary: rl) (simp_all add: check_all_Cons del: check_all.simps(2))

lemma check_all_under_limit:
  "int (length (stored rl key)) + int (length ts) \<le> maxRequests rl \<Longrightarrow>
   fst (check_all rl key ts) = replicate (length ts) NoSleep"
proof (induction ts arbitrary: rl)
  case Nil then show ?case by simp
next
  case (Cons now nows)
  let ?rl = "snd (checkLimit rl key now)"
  have len: "length (recentRequests rl key now) \<le> length (stored rl key)"
    by (simp add: recentRequests_stored)
  with Cons.prems have "fst (checkLimit rl key now) = NoSleep"
    by (intro checkLimit_NoSleep) simp
  moreover have "fst (check_all ?rl key nows) = replicate (length nows) NoSleep"
    by (rule Cons.IH) (use len Cons.prems in \<open>simp add: checkLimit_stored checkLimit_params\<close>)
  ultimately show ?case by (simp add: check_all_Cons del: check_all.simps(2))
qed

lemma check_all_in_window:
  assumes "int (length (stored rl key)) + int (length ts) \<le> maxRequests rl"
    and "sorted (stored rl key @ ts)"
    and "\<forall>x \<in> set (stored rl key @ ts). \<forall>y \<in> set (stored rl key @ ts). y - x < windowMs rl"
  shows "stored (snd (check_all rl key ts)) key = stored rl key @ ts
       \<and> maxRequests (snd (check_all rl key ts)) = maxRequests rl
       \<and> windowMs (snd (check_all rl key ts)) = windowMs rl"
  using assms
proof (induction ts arbitrary: rl)
  case Nil then show ?case by simp
next
  case (Cons now nows)
  let ?rl = "snd (checkLimit rl key now)"
  have "\<forall>x \<in> set (stored rl key). now - x < windowMs rl" using Cons.prems(3) by simp
  then have rec: "recentRequests rl key now = stored rl key"
    by (simp add: recentRequests_stored filter_id_conv) (metis diff_less_eq add.commute)
  have st: "stored ?rl key @ nows = stored rl key @ now # nows"
    by (simp add: checkLimit_stored rec)
  have "stored (snd (check_all ?rl key nows)) key = stored ?rl key @ nows
       \<and> maxRequests (snd (check_all ?rl key nows)) = maxRequests ?rl
       \<and> windowMs (snd (check_all ?rl key nows)) = windowMs ?rl"
    by (rule Cons.IH) (use Cons.prems in \<open>simp_all only: st checkLimit_params\<close>, simp add: checkLimit_stored rec)
  then show ?case by (simp add: check_all_Cons st checkLimit_params del: check_all.simps(2))
qed

lemma Math_min_sorted: "sorted (x # xs) \<Longrightarrow> Math_min (x # xs) = Some x"
  by (induction xs arbitrary: x) (auto split: option.splits)

lemma Math_min_Min: "xs \<noteq> [] \<Longrightarrow> Math_min xs = Some (Min (set xs))"
proof (induction xs)
  case Nil then show ?case by simp
next
  case (Cons x xs)
  then show ?case by (cases xs) (auto split: option.splits)
qed

lemma stored_new: "stored (new_RateLimiter m w) key = []"
  by (simp add: stored_def new_RateLimiter_def)

lemma checkLimit_Sleep:
  assumes "int (length (recentRequests rl key now)) \<ge> maxRequests rl"
    and "recentRequests rl key now \<noteq> []"
  shows "fst (checkLimit rl key now)
           = Sleep (windowMs rl - (now - Min (set (recentRequests rl key now))))"
  using assms by (simp add: checkLimit_def Let_def Math_min_Min)

lemma Min_recent_gt:
  assumes "recentRequests rl key now \<noteq> []"
  shows "Min (set (recentRequests rl key now)) > now - windowMs rl"
proof -
  have "Min (set (recentRequests rl key now)) \<in> set (recentRequests rl key now)"
    using assms by (intro Min_in) simp_all
  then show ?thesis by (simp add: recentRequests_def)
qed

lemma burst_last_sleep:
  assumes m: "0 < m" and len: "length ts = nat m + 1" and srt: "sorted ts"
    and win: "last ts - hd ts < w"
  shows "fst (check_all (new_RateLimiter m w) key ts)
           = replicate (nat m) NoSleep @ [Sleep (w - (last ts - hd ts))]"
proof -
  define init where "init = butlast ts"
  define t where "t = last ts"
  have ne: "ts \<noteq> []" using len by auto
  then have ts: "ts = init @ [t]"
    by (simp add: init_def t_def)
  have lt: "last ts = t" by (simp add: t_def)
  have sets: "set ts = insert t (set init)" by (subst ts) simp
  have li: "length init = nat m" using len by (simp add: init_def)
  then have ine: "init \<noteq> []" using m by auto
  have hd: "hd ts = hd init" using ts ine by simp
  have sinit: "sorted init" using srt ts by (simp add: sorted_append)
  have within: "\<forall>x \<in> set ts. \<forall>y \<in> set ts. y - x < w"
  proof (intro ballI)
    fix x y assume "x \<in> set ts" "y \<in> set ts"
    have "hd ts \<le> x" using srt \<open>x \<in> set ts\<close> ne by (cases ts) auto
    moreover have "\<forall>z \<in> set init. z \<le> t" using srt ts by (simp add: sorted_append)
    then have "y \<le> last ts" using \<open>y \<in> set ts\<close> sets lt by auto
    ultimately show "y - x < w" using win by linarith
  qed
  let ?fresh = "new_RateLimiter m w"
  let ?after = "snd (check_all ?fresh key init)"
  have first: "fst (check_all ?fresh key init) = replicate (nat m) NoSleep"
    using check_all_under_limit [of ?fresh key init] li m
    by (simp add: stored_new) (simp add: new_RateLimiter_def)
  have st: "stored ?after key = stored ?fresh key @ init \<and> maxRequests ?after = maxRequests ?fresh
       \<and> windowMs ?after = windowMs ?fresh"
  proof (rule check_all_in_window)
    show "int (length (stored ?fresh key)) + int (length init) \<le> maxRequests ?fresh"
      using li m by (simp add: stored_new) (simp add: new_RateLimiter_def)
    show "sorted (stored ?fresh key @ init)" using sinit by (simp add: stored_new)
    show "\<forall>x\<in>set (stored ?fresh key @ init). \<forall>y\<in>set (stored ?fresh key @ init). y - x < windowMs ?fresh"
      using within ts by (simp add: stored_new) (simp add: new_RateLimiter_def)
  qed
  then have st': "stored ?after key = init" "maxRequests ?after = m" "windowMs ?after = w"
    by (simp_all add: stored_new) (simp_all add: new_RateLimiter_def)
  have "\<forall>x \<in> set init. t - x < w" using within ts by simp
  then have rec: "recentRequests ?after key t = init"
    by (simp add: recentRequests_stored st' filter_id_conv) (metis diff_less_eq add.commute)
  have "Min (set init) = hd init" using sinit ine
    by (cases init) (auto intro!: Min_eqI)
  then have "fst (checkLimit ?after key t) = Sleep (w - (t - hd init))"
    using checkLimit_Sleep [of ?after key t] rec ine li st' by simp
  then have "fst (check_all ?fresh key (init @ [t]))
           = replicate (nat m) NoSleep @ [Sleep (w - (t - hd init))]"
    by (simp add: check_all_append first check_all_Cons del: check_all.simps(2))
  then show ?thesis
    unfolding lt hd ts [symmetric] .
qed

text \<open>
  Claim C3. A check stores, for its key, the timestamps newer than \<^verbatim>\<open>now - windowMs\<close>
  followed by \<^verbatim>\<open>now\<close>. It requests no sleep when fewer than \<^verbatim>\<open>maxRequests\<close> timestamps
  are kept; when at least \<^verbatim>\<open>maxRequests\<close> are kept (and there is one) it sleeps for
  \<^verbatim>\<open>windowMs - (now - oldest)\<close>, a positive time. The result of a check is a sleep request and
  a new state, never an error. From a new limiter with a positive maximum, \<open>max + 1\<close>
  checks at non-decreasing clock readings that lie within one window sleep only at the last
  check, for \<^verbatim>\<open>windowMs\<close> minus the time since the first; at most \<open>max\<close> checks, however
  they are spaced, never sleep.
\<close>

theorem C3_rate_limiter:
  "Map_get (requests (snd (checkLimit rl key now))) key = Some (recentRequests rl key now @ [now])
 \<and> recentRequests rl key now
      = filter (\<lambda>time. time > now - windowMs rl)
          (case Map_get (requests rl) key of None \<Rightarrow> [] | Some ts \<Rightarrow> ts)
 \<and> (int (length (recentRequests rl key now)) < maxRequests rl \<longrightarrow>
       fst (checkLimit rl key now) = NoSleep)
 \<and> (int (length (recentRequests rl key now)) \<ge> maxRequests rl
       \<and> recentRequests rl key now \<noteq> [] \<longrightarrow>
       fst (checkLimit rl key now)
         = Sleep (windowMs rl - (now - Min (set (recentRequests rl key now))))
     \<and> 0 < windowMs rl - (now - Min (set (recentRequests rl key now))))
 \<and> (0 < m \<and> length ts = nat m + 1 \<and> sorted ts \<and> last ts - hd ts < w \<longrightarrow>
       fst (check_all (new_RateLimiter m w) key ts)
         = replicate (nat m) NoSleep @ [Sleep (w - (last ts - hd ts))])
 \<and> (int (length ts) \<le> m \<longrightarrow>
       fst (check_all (new_RateLimiter m w) key ts) = replicate (length ts) NoSleep)"
proof -
  have 1: "Map_get (requests (snd (checkLimit rl key now))) key
             = Some (recentRequests rl key now @ [now])"
    by (simp add: checkLimit_def Let_def Map_get_set)
  have 2: "recentRequests rl key now
      = filter (\<lambda>time. time > now - windowMs rl)
          (case Map_get (requests rl) key of None \<Rightarrow> [] | Some ts \<Rightarrow> ts)"
    by (simp add: recentRequests_def)
  have 3: "int (length (recentRequests rl key now)) < maxRequests rl \<longrightarrow>
       fst (checkLimit rl key now) = NoSleep"
    by (simp add: checkLimit_NoSleep)
  have 4: "int (length (recentRequests rl key now)) \<ge> maxRequests rl
       \<and> recentRequests rl key now \<noteq> [] \<longrightarrow>
       fst (checkLimit rl key now)
         = Sleep (windowMs rl - (now - Min (set (recentRequests rl key now))))
     \<and> 0 < windowMs rl - (now - Min (set (recentRequests rl key now)))"
  proof (intro impI conjI)
    assume a: "int (length (recentRequests rl key now)) \<ge> maxRequests rl
       \<and> recentRequests rl key now \<noteq> []"
    then show "fst (checkLimit rl key now)
         = Sleep (windowMs rl - (now - Min (set (recentRequests rl key now))))"
      by (simp add: checkLimit_Sleep)
    from a have "Min (set (recentRequests rl key now)) > now - windowMs rl"
      by (intro Min_recent_gt) blast
    then show "0 < windowMs rl - (now - Min (set (recentRequests rl key now)))"
      by linarith
  qed
  have 5: "0 < m \<and> length ts = nat m + 1 \<and> sorted ts \<and> last ts - hd ts < w \<longrightarrow>
       fst (check_all (new_RateLimiter m w) key ts)
         = replicate (nat m) NoSleep @ [Sleep (w - (last ts - hd ts))]"
    using burst_last_sleep [of m ts w key] by blast
  have 6: "int (length ts) \<le> m \<longrightarrow>
       fst (check_all (new_RateLimiter m w) key ts) = replicate (length ts) NoSleep"
    using check_all_under_limit [of "new_RateLimiter m w" key ts]
    by (simp add: stored_new) (simp add: new_RateLimiter_def)
  from 1 2 3 4 5 6 show ?thesis by blast
qed

text \<open>The theorem at 3 requests per minute: a check that prunes and does not sleep, a check
  that sleeps 57 seconds, four checks in one window, and three checks spread over it.\<close>

theorem C3_witness:
  "checkLimit demo_limiter ''api'' 61500
     = (NoSleep, demo_limiter\<lparr>requests := [(''api'', [2000, 3000, 61500])]\<rparr>)
 \<and> checkLimit demo_limiter ''api'' 4000
     = (Sleep 57000, demo_limiter\<lparr>requests := [(''api'', [1000, 2000, 3000, 4000])]\<rparr>)
 \<and> fst (check_all (new_RateLimiter 3 60000) ''api'' [0, 100, 200, 30000])
     = [NoSleep, NoSleep, NoSleep, Sleep 30000]
 \<and> fst (check_all (new_RateLimiter 3 60000) ''api'' [0, 20000, 40000])
     = [NoSleep, NoSleep, NoSleep]"
proof -
  have r1: "recentRequests demo_limiter ''api'' 61500 = [2000, 3000]"
    and r2: "recentRequests demo_limiter ''api'' 4000 = [1000, 2000, 3000]"
    by (simp_all add: recentRequests_def demo_limiter_def)
  have a: "checkLimit demo_limiter ''api'' 61500
     = (NoSleep, demo_limiter\<lparr>requests := [(''api'', [2000, 3000, 61500])]\<rparr>)"
    using C3_rate_limiter [of demo_limiter "''api''" 61500 3 "[]" 0]
    by (simp add: r1 prod_eq_iff) (simp add: checkLimit_def Let_def r1 demo_limiter_def)
  have b: "checkLimit demo_limiter ''api'' 4000
     = (Sleep 57000, demo_limiter\<lparr>requests := [(''api'', [1000, 2000, 3000, 4000])]\<rparr>)"
    using C3_rate_limiter [of demo_limiter "''api''" 4000 3 "[]" 0]
    by (simp add: r2 prod_eq_iff) (simp add: checkLimit_def Let_def r2 demo_limiter_def)
  have c: "fst (check_all (new_RateLimiter 3 60000) ''api'' [0, 100, 200, 30000])
     = [NoSleep, NoSleep, NoSleep, Sleep 30000]"
    using C3_rate_limiter [of demo_limiter "''api''" 4000 3 "[0, 100, 200, 30000]" 60000]
    by (simp add: numeral_eq_Suc)
  have d: "fst (check_all (new_RateLimiter 3 60000) ''api'' [0, 20000, 40000])
     = [NoSleep, NoSleep, NoSleep]"
    using C3_rate_limiter [of demo_limiter "''api''" 4000 3 "[0, 20000, 40000]" 60000]
    by (simp add: numeral_eq_Suc)
  from a b c d show ?thesis by blast
qed

section \<open>Properties of the planner\<close>

subsection \<open>Matches never lengthen the subject, and a domain match shortens it\<close>









subsection \<open>What a match of the domain pattern is\<close>

lemma flag_after_Nil [simp]: "flag_after b [] = b"
  by (simp add: flag_after_def)

lemma flag_after_Cons [simp]: "flag_after b (c # w) = flag_after (is_word c) w"
  by (simp add: flag_after_def)


















subsection \<open>The two instructions of the specification, run\<close>

lemma c6_trim:
  "trim ''create 3 mailboxes on zero domains and connect to instantly''
     = ''create 3 mailboxes on zero domains and connect to instantly''"
  by code_simp

lemma c6_intent:
  "matched_intent ''create 3 mailboxes on zero domains and connect to instantly''
     = Some CREATE_MAILBOXES_EMPTY"
  by code_simp

lemma c6_count:
  "simpleParseMailboxCount ''create 3 mailboxes on zero domains and connect to instantly'' = 3"
  by code_simp

lemma c6_compound:
  "test compound_pattern ''create 3 mailboxes on zero domains and connect to instantly''"
  by code_simp

lemma show_nat_3: "show_nat 3 = ''3''"
  by code_simp

text \<open>
  Claim C6 says that \<^verbatim>\<open>create 3 mailboxes on zero domains and connect to instantly\<close> gets the
  compound sequence (list domains, compute note, create mailboxes, connect). The code gives
  it the three steps of the standalone intent, with no connect step: the loop over
  \<^verbatim>\<open>INTENT_PATTERNS\<close> stops at \<^verbatim>\<open>CREATE_MAILBOXES_EMPTY\<close>, and the compound pattern, which
  also matches, is only tried when no pattern of the list matched.
\<close>

theorem C6_standalone_sequence_planned:
  "planFromRules rt (JStr ''create 3 mailboxes on zero domains and connect to instantly'') opts
     = Inr \<lparr>strategy = ''rules'',
        steps =
          [JObj [(''action'', JStr ''api''), (''path'', JStr ''/v2/domains''),
                 (''method'', JStr ''GET''), (''description'', JStr ''List domains'')],
           JObj [(''action'', JStr ''compute''), (''note'', JStr ''Filter domains with 0 mailboxes'')],
           JObj [(''action'', JStr ''api''), (''path'', JStr ''/v2/mailboxes''),
                 (''method'', JStr ''POST''),
                 (''bodyFrom'', JStr ''createMailboxesForZeroDomains''), (''count'', JNum (Finite 3)),
                 (''description'', JStr ''Create 3 mailboxes on each zero-mailbox domain'')]]\<rparr>
   \<and> first_intent INTENT_PATTERNS ''create 3 mailboxes on zero domains and connect to instantly''
       = Some CREATE_MAILBOXES_EMPTY
   \<and> test compound_pattern ''create 3 mailboxes on zero domains and connect to instantly''"
proof -
  have "first_intent INTENT_PATTERNS ''create 3 mailboxes on zero domains and connect to instantly''
       = Some CREATE_MAILBOXES_EMPTY"
    using c6_intent by (auto simp: matched_intent_def split: option.splits if_splits)
  then show ?thesis
    by (simp add: planFromRules_def rules_plan_def instruction_text_def c6_trim c6_intent c6_count
        c6_compound api_step_def note_step_def show_nat_3)
qed

text \<open>The example that the comment at the compound pattern gives, \<^verbatim>\<open>setup 100 mailboxes and
  connect to instantly\<close>, does not reach the compound pattern either: the loop stops at
  \<^verbatim>\<open>CONNECT_EXPORT_APP\<close>. An instruction reaches it when it names no app and no empty domains.\<close>

lemma c6_comment_example:
  "matched_intent ''setup 100 mailboxes and connect to instantly'' = Some CONNECT_EXPORT_APP"
  "matched_intent ''setup 5 mailboxes and connect them'' = Some CREATE_AND_CONNECT"
  by code_simp+

lemma c7_trim:
  "trim ''check if example.com is available for 1 year''
     = ''check if example.com is available for 1 year''"
  by code_simp

lemma c7_intent: "matched_intent ''check if example.com is available for 1 year'' = None"
  by code_simp

lemma c7_domains: "simpleParseDomains ''check if example.com is available for 1 year'' = [''example.com'']"
  by code_simp

text \<open>
  Claim C7 says that \<^verbatim>\<open>check if example.com is available for 1 year\<close> gets one
  availability-check api step. The code gives it the single info step of an unmatched
  instruction and no api step: the pattern of \<^verbatim>\<open>CHECK_DOMAIN\<close> asks for the word
  \<^verbatim>\<open>domain\<close> or \<^verbatim>\<open>domains\<close>, which the instruction does not contain.
\<close>

theorem C7_no_rule_matched:
  "planFromRules rt (JStr ''check if example.com is available for 1 year'') opts
     = Inr \<lparr>strategy = ''rules'',
            steps = [JObj [(''action'', JStr ''info''),
                           (''note'', JStr ''No rule matched. Use dynamic endpoint tools or specify slug/path.'')]]\<rparr>
   \<and> \<not> (\<exists>p. planFromRules rt (JStr ''check if example.com is available for 1 year'') opts = Inr p
            \<and> (\<exists>s \<in> set (steps p). is_api_step s))"
  by (simp add: planFromRules_def rules_plan_def instruction_text_def c7_trim c7_intent
      note_step_def is_api_step_def action_of_def)

text \<open>With the word \<^verbatim>\<open>domain\<close> added, the same instruction gets the decision note and the
  availability check with body \<^verbatim>\<open>{domainName: "example.com", years: 1}\<close>.\<close>

lemma c7_with_keyword:
  "planFromRules rt (JStr ''check if domain example.com is available for 1 year'') opts
     = Inr \<lparr>strategy = ''rules'', steps =
       [JObj [(''action'', JStr ''decision''),
              (''note'', JStr ''Wallet-first is irrelevant for availability; proceed to availability check.'')],
        JObj [(''action'', JStr ''api''),
              (''slug'', JStr ''get-available-domains-for-registration-13521189e0''),
              (''path'', JStr ''/v2/domains/available''),
              (''method'', JStr ''POST''),
              (''body'', JObj [(''domainName'', JStr ''example.com''), (''years'', JNum (Finite 1))]),
              (''description'', JStr ''Check availability for example.com'')]]\<rparr>"
proof -
  have "trim ''check if domain example.com is available for 1 year''
          = ''check if domain example.com is available for 1 year''"
    by code_simp
  moreover have "matched_intent ''check if domain example.com is available for 1 year'' = Some CHECK_DOMAIN"
    by code_simp
  moreover have "simpleParseDomains ''check if domain example.com is available for 1 year'' = [''example.com'']"
    by code_simp
  moreover have "simpleParseYears ''check if domain example.com is available for 1 year'' = 1"
    by code_simp
  ultimately show ?thesis
    by (simp add: planFromRules_def rules_plan_def instruction_text_def note_step_def
        availability_step_def)
qed

subsection \<open>Every plan has a step\<close>


subsection \<open>The values that have a string\<close>




text \<open>
  Claim C10, as stated, fails for some input values: \<^verbatim>\<open>String(nl || "")\<close> throws a
  \<^verbatim>\<open>TypeError\<close> for an object that has no string, such as \<^verbatim>\<open>{"toString": 1}\<close>, and
  \<^verbatim>\<open>planFromRules\<close> has no handler for it.
\<close>

theorem C10_counterexample:
  "planFromRules demo_runtime (JObj [(''toString'', JNum (Finite 1))]) no_options
     = Inl (NativeError ''TypeError'' ''Cannot convert object to primitive value'')"
  by (simp add: planFromRules_def instruction_text_def conversion_error_def)






section \<open>Properties of the choice of plan\<close>

lemma planFromLLM_cases:
  "planFromLLM rt reply = llm_failed \<or> strategy (planFromLLM rt reply) = ''llm''"
  by (auto simp: planFromLLM_def split: llm_reply.splits option.splits json.splits)

lemma planFromRules_string: "planFromRules rt (JStr s) opts = Inr (rules_plan (trim s) opts)"
  by (simp add: planFromRules_def instruction_text_def)

lemma choose_plan_failed:
  "planFromLLM rt reply = llm_failed \<Longrightarrow>
   choose_plan rt llmPlanner reply instruction opts = planFromRules rt instruction opts"
  by (simp add: choose_plan_def Let_def llm_failed_def split: sum.splits)

text \<open>
  Claim C8, as stated, fails in its last part. When the LLM planner is enabled and its call
  fails, the handler answers with the plan of the rules under the strategy \<^verbatim>\<open>rules\<close>: the
  answer is the one it gives with the LLM planner disabled, and no answer carries the
  strategy \<^verbatim>\<open>llm-failed\<close>.
\<close>

theorem C8_counterexample:
  "plan_and_execute_dry demo_runtime True LlmFetchThrows (JStr ''list all workspaces'') no_options
     = plan_and_execute_dry demo_runtime False LlmFetchThrows (JStr ''list all workspaces'') no_options
 \<and> \<not> (\<exists>r. plan_and_execute_dry demo_runtime True LlmFetchThrows (JStr ''list all workspaces'')
             no_options = Inr r \<and> dry_strategy r = ''llm-failed'')"
  by (simp add: plan_and_execute_dry_def choose_plan_def Let_def planFromLLM_def llm_failed_def
      planFromRules_string rules_plan_def)

text \<open>
  Claim C8, amended. Every failure of the LLM tier (the request throws, the body is not JSON,
  the content has no string or does not parse, or what it parses to has no array of steps)
  makes \<open>planFromLLM\<close> return its plan marked \<^verbatim>\<open>llm-failed\<close> rather than throw; and
  whenever it returns that plan, the plan that \<^verbatim>\<open>plan_and_execute\<close> goes on with is the
  rule-based plan, and with a valid instruction it answers in dry-run mode with the steps of
  that plan and the strategy \<^verbatim>\<open>rules\<close>, exactly as it does with the LLM planner disabled.
  The mark does not reach the caller.
\<close>

theorem C8_llm_failure_falls_back:
  "((reply = LlmFetchThrows \<or> reply = LlmBodyNotJson
       \<or> (\<exists>data. reply = LlmBody data \<and>
             (llm_text rt data = None
              \<or> (\<exists>t. llm_text rt data = Some t \<and>
                     (JSON_parse rt t = None
                      \<or> (\<exists>j. JSON_parse rt t = Some j
                             \<and> (\<forall>xs. get_prop (Some j) ''steps'' \<noteq> Some (JArr xs))))))))
     \<longrightarrow> planFromLLM rt reply = llm_failed)
 \<and> (planFromLLM rt reply = llm_failed \<longrightarrow>
       choose_plan rt True reply instruction opts = planFromRules rt instruction opts)
 \<and> (planFromLLM rt reply = llm_failed \<and> s \<noteq> [] \<longrightarrow>
       (\<exists>p. planFromRules rt (JStr s) opts = Inr p
          \<and> plan_and_execute_dry rt True reply (JStr s) opts
               = Inr \<lparr>mode = ''dry-run'', dry_strategy = ''rules'', dry_steps = steps p\<rparr>)
     \<and> plan_and_execute_dry rt True reply (JStr s) opts
         = plan_and_execute_dry rt False reply (JStr s) opts)"
proof -
  have 1: "(reply = LlmFetchThrows \<or> reply = LlmBodyNotJson
       \<or> (\<exists>data. reply = LlmBody data \<and>
             (llm_text rt data = None
              \<or> (\<exists>t. llm_text rt data = Some t \<and>
                     (JSON_parse rt t = None
                      \<or> (\<exists>j. JSON_parse rt t = Some j
                             \<and> (\<forall>xs. get_prop (Some j) ''steps'' \<noteq> Some (JArr xs))))))))
     \<longrightarrow> planFromLLM rt reply = llm_failed"
    by (auto simp: planFromLLM_def split: option.splits json.splits)
  have c: "planFromLLM rt reply = llm_failed \<longrightarrow>
       choose_plan rt True reply instruction opts = planFromRules rt instruction opts"
    by (simp add: choose_plan_failed)
  have 2: "planFromLLM rt reply = llm_failed \<and> s \<noteq> [] \<longrightarrow>
       (\<exists>p. planFromRules rt (JStr s) opts = Inr p
          \<and> plan_and_execute_dry rt True reply (JStr s) opts
               = Inr \<lparr>mode = ''dry-run'', dry_strategy = ''rules'', dry_steps = steps p\<rparr>)
     \<and> plan_and_execute_dry rt True reply (JStr s) opts
         = plan_and_execute_dry rt False reply (JStr s) opts"
    by (simp add: plan_and_execute_dry_def choose_plan_failed)
      (simp add: choose_plan_def planFromRules_string rules_plan_def)
  from 1 c 2 show ?thesis by blast
qed

text \<open>The theorem at an error body of the completion service, which has no choices.\<close>

theorem C8_witness:
  "planFromLLM demo_runtime (LlmBody (JObj [(''error'', JStr ''quota'')])) = llm_failed
 \<and> choose_plan demo_runtime True (LlmBody (JObj [(''error'', JStr ''quota'')])) (JStr ''hello'')
       no_options = planFromRules demo_runtime (JStr ''hello'') no_options
 \<and> (\<exists>p. planFromRules demo_runtime (JStr ''hello'') no_options = Inr p
      \<and> plan_and_execute_dry demo_runtime True (LlmBody (JObj [(''error'', JStr ''quota'')]))
            (JStr ''hello'') no_options
          = Inr \<lparr>mode = ''dry-run'', dry_strategy = ''rules'', dry_steps = steps p\<rparr>)"
proof -
  have t: "llm_text demo_runtime (JObj [(''error'', JStr ''quota'')]) = Some ''{}''"
    by (simp add: llm_text_def llm_content_def)
  have p: "JSON_parse demo_runtime ''{}'' = Some (JObj [])"
    by (simp add: demo_runtime_def demo_bodies_def)
  note T = C8_llm_failure_falls_back [of "LlmBody (JObj [(''error'', JStr ''quota'')])"
      demo_runtime "JStr ''hello''" no_options "''hello''"]
  have "\<exists>j. JSON_parse demo_runtime ''{}'' = Some j
      \<and> (\<forall>xs. get_prop (Some j) ''steps'' \<noteq> Some (JArr xs))"
    by (simp add: p)
  with t have h: "\<exists>data. LlmBody (JObj [(''error'', JStr ''quota'')]) = LlmBody data \<and>
      (llm_text demo_runtime data = None
       \<or> (\<exists>t. llm_text demo_runtime data = Some t \<and>
              (JSON_parse demo_runtime t = None
               \<or> (\<exists>j. JSON_parse demo_runtime t = Some j
                      \<and> (\<forall>xs. get_prop (Some j) ''steps'' \<noteq> Some (JArr xs))))))"
    by blast
  from T h have f: "planFromLLM demo_runtime (LlmBody (JObj [(''error'', JStr ''quota'')]))
      = llm_failed"
    by blast
  have n: "''hello'' \<noteq> []" by simp
  from T f n show ?thesis by blast
qed

section \<open>Properties of the request executor\<close>

subsection \<open>What a request and a sleep add to the record\<close>



subsection \<open>The retry loop\<close>





lemma cache_lookup_events:
  "events (snd (cache_lookup method key w)) = events w"
  "fetch_count (snd (cache_lookup method key w)) = fetch_count w"
  by (auto simp: cache_lookup_def fetch_count_def split: option.splits prod.splits)

subsection \<open>The executor run on the concrete services\<close>




text \<open>When the message of the last body has no string, what ends the loop is the
  \<^verbatim>\<open>TypeError\<close> of the template literal, not an \<^verbatim>\<open>ApiError\<close>.\<close>

lemma garbled_scenario:
  "fst (apiFetch demo_runtime demo_config garbled_service (JStr ''/v2/workspaces'')
          (default_options\<lparr>opt_maxRetries := Some 1\<rparr>) fresh_world)
     = Inl (NativeError ''TypeError'' ''Cannot convert object to primitive value'')"
  "events (snd (apiFetch demo_runtime demo_config garbled_service (JStr ''/v2/workspaces'')
          (default_options\<lparr>opt_maxRetries := Some 1\<rparr>) fresh_world))
     = [EvFetch workspaces_request, EvSleep 2500, EvFetch workspaces_request]"
  by code_simp+




text \<open>
  Claim C4, as stated, fails in its classification: the error for a missing credential is a
  \<^verbatim>\<open>ValidationError\<close> with the code \<^verbatim>\<open>VALIDATION_ERROR\<close>, the name and the code of the error
  for an empty path. The two differ in message and field only.
\<close>

theorem C4_counterexample:
  "\<exists>e1 e2.
     fst (apiFetch demo_runtime no_key_config throttling_service (JStr ''/v2/workspaces'')
            default_options fresh_world) = Inl e1
   \<and> fst (apiFetch demo_runtime demo_config throttling_service (JStr [])
            default_options fresh_world) = Inl e2
   \<and> e1 = ValidationError ''ZAPMAIL_API_KEY not configured'' ''apiKey'' JNull
   \<and> e2 = ValidationError ''path is required'' ''path'' (JStr [])
   \<and> error_name e1 = error_name e2 \<and> error_code e1 = error_code e2"
proof -
  have "fst (apiFetch demo_runtime no_key_config throttling_service (JStr ''/v2/workspaces'')
            default_options fresh_world)
          = Inl (ValidationError ''ZAPMAIL_API_KEY not configured'' ''apiKey'' JNull)"
    by code_simp
  moreover have "fst (apiFetch demo_runtime demo_config throttling_service (JStr [])
            default_options fresh_world) = Inl (ValidationError ''path is required'' ''path'' (JStr []))"
    by code_simp
  ultimately show ?thesis by simp
qed

text \<open>
  Claim C4, amended. With a valid path and method, no credential configured and no value taken
  from the cache, \<^verbatim>\<open>apiFetch\<close> fails with the \<^verbatim>\<open>ValidationError\<close> \<^verbatim>\<open>ZAPMAIL_API_KEY not
  configured\<close> (field \<^verbatim>\<open>apiKey\<close>, value \<^verbatim>\<open>null\<close>, code \<^verbatim>\<open>VALIDATION_ERROR\<close>). It has sent no
  request and has not retried: what it has done to the outside is what the rate limiter did
  before the check.
\<close>

theorem C4_missing_key_fails_before_any_request:
  "validateString path ''path'' = Inr p
   \<and> validateString (case opt_method opts of None \<Rightarrow> JStr ''GET'' | Some m \<Rightarrow> m) ''method'' = Inr method
   \<and> (getApiKey cfg = None \<or> getApiKey cfg = Some [])
   \<and> fst (cache_lookup method (cache_key rt method p (opt_query opts)) (rate_gate w)) = None
   \<longrightarrow>
     fst (apiFetch rt cfg srv path opts w)
       = Inl (ValidationError ''ZAPMAIL_API_KEY not configured'' ''apiKey'' JNull)
   \<and> error_name (ValidationError ''ZAPMAIL_API_KEY not configured'' ''apiKey'' JNull)
       = ''ValidationError''
   \<and> error_code (ValidationError ''ZAPMAIL_API_KEY not configured'' ''apiKey'' JNull)
       = Some ''VALIDATION_ERROR''
   \<and> events (snd (apiFetch rt cfg srv path opts w)) = events (rate_gate w)
   \<and> fetch_count (snd (apiFetch rt cfg srv path opts w)) = fetch_count w
   \<and> sleeps (snd (apiFetch rt cfg srv path opts w)) = sleeps (rate_gate w)"
proof
  assume a: "validateString path ''path'' = Inr p
   \<and> validateString (case opt_method opts of None \<Rightarrow> JStr ''GET'' | Some m \<Rightarrow> m) ''method'' = Inr method
   \<and> (getApiKey cfg = None \<or> getApiKey cfg = Some [])
   \<and> fst (cache_lookup method (cache_key rt method p (opt_query opts)) (rate_gate w)) = None"
  let ?look = "cache_lookup method (cache_key rt method p (opt_query opts)) (rate_gate w)"
  from a have eq: "apiFetch rt cfg srv path opts w = (Inl missing_key, snd ?look)"
    by (auto simp: apiFetch_def send_def Let_def split: prod.splits)
  have ev: "events (snd ?look) = events (rate_gate w)" by (rule cache_lookup_events)
  have "fetch_count (rate_gate w) = fetch_count w"
    by (simp add: rate_gate_def sleep_wait_def sleep_def fetch_count_def
        split: prod.splits wait.splits)
  then show "fst (apiFetch rt cfg srv path opts w)
       = Inl (ValidationError ''ZAPMAIL_API_KEY not configured'' ''apiKey'' JNull)
   \<and> error_name (ValidationError ''ZAPMAIL_API_KEY not configured'' ''apiKey'' JNull)
       = ''ValidationError''
   \<and> error_code (ValidationError ''ZAPMAIL_API_KEY not configured'' ''apiKey'' JNull)
       = Some ''VALIDATION_ERROR''
   \<and> events (snd (apiFetch rt cfg srv path opts w)) = events (rate_gate w)
   \<and> fetch_count (snd (apiFetch rt cfg srv path opts w)) = fetch_count w
   \<and> sleeps (snd (apiFetch rt cfg srv path opts w)) = sleeps (rate_gate w)"
    by (simp add: eq ev missing_key_def cache_lookup_events sleeps_def)
qed

text \<open>The theorem at the configuration without a key, from the state at start.\<close>

theorem C4_witness:
  "fst (apiFetch demo_runtime no_key_config throttling_service (JStr ''/v2/workspaces'')
          default_options fresh_world)
     = Inl (ValidationError ''ZAPMAIL_API_KEY not configured'' ''apiKey'' JNull)
 \<and> events (snd (apiFetch demo_runtime no_key_config throttling_service (JStr ''/v2/workspaces'')
          default_options fresh_world)) = []
 \<and> fetch_count (snd (apiFetch demo_runtime no_key_config throttling_service (JStr ''/v2/workspaces'')
          default_options fresh_world)) = 0"
proof -
  have v: "validateString (JStr ''/v2/workspaces'') ''path'' = Inr ''/v2/workspaces''"
    "validateString (case opt_method default_options of None \<Rightarrow> JStr ''GET'' | Some m \<Rightarrow> m) ''method''
       = Inr ''GET''"
    by (simp_all add: validateString_def validateRequired_def default_options_def)
  have k: "getApiKey no_key_config = None"
    by (simp add: getApiKey_def no_key_config_def demo_config_def)
  have c: "fst (cache_lookup ''GET'' (cache_key demo_runtime ''GET'' ''/v2/workspaces''
                 (opt_query default_options)) (rate_gate fresh_world)) = None"
    by code_simp
  have e: "events (rate_gate fresh_world) = []" "fetch_count fresh_world = 0"
    by code_simp+
  show ?thesis
    using C4_missing_key_fails_before_any_request [of "JStr ''/v2/workspaces''" "''/v2/workspaces''"
        default_options "''GET''" no_key_config demo_runtime fresh_world throttling_service]
    by (simp add: v k c e)
qed

section \<open>Properties of the purchase\<close>

text \<open>The loop of \<open>purchaseDomains\<close> makes the calls of \<open>quotes\<close>, and its total is the sum
  of the quoted prices times the years, added up in the order of the domains.\<close>

lemma price_loop_quotes:
  "price_loop rt ar cfg srv ds years ws sp tot specs w =
     (case quotes rt cfg srv ds years ws sp w of
        (Inl e, w') \<Rightarrow> (Inl e, w')
      | (Inr prices, w') \<Rightarrow>
          (Inr (foldl (add_cost ar years) tot prices,
                specs @ map (\<lambda>(d, p). \<lparr>spec_domainName = d, spec_years = years, spec_price = p\<rparr>)
                          (zip ds prices)), w'))"
proof (induction ds arbitrary: tot specs w)
  case Nil
  show ?case by (simp add: quotes.simps)
next
  case (Cons d ds)
  show ?case
    by (simp add: quotes.simps Cons.IH add_cost_def split: prod.splits sum.splits)
qed

lemma quotes_length:
  "quotes rt cfg srv ds years ws sp w = (Inr prices, w') \<Longrightarrow> length prices = length ds"
proof (induction ds arbitrary: prices w)
  case Nil
  then show ?case by (simp add: quotes.simps)
next
  case (Cons d ds)
  from Cons.prems obtain avail w1 price rest where
    "quotes rt cfg srv ds years ws sp w1 = (Inr rest, w')" "prices = price # rest"
    by (auto simp: quotes.simps split: prod.splits sum.splits)
  with Cons.IH show ?case by auto
qed

text \<open>The purchase of \<^verbatim>\<open>a.com\<close> and \<^verbatim>\<open>b.com\<close> for one year: the quotes are 100 and 50, the
  balance is what the wallet answers, and the purchase call returns the payment link.\<close>

lemma shop_quotes:
  "fst (quotes demo_runtime demo_config (shop_service wallet) [''a.com'', ''b.com''] (Finite 1)
          None None fresh_world) = Inr [Finite 100, Finite 50]"
  by code_simp

lemma shop_balance:
  "fst (getWalletBalance demo_runtime demo_config (shop_service wallet_100)
          (snd (quotes demo_runtime demo_config (shop_service wallet_100) [''a.com'', ''b.com'']
                  (Finite 1) None None fresh_world))) = Inr (Finite 100)"
  "fst (getWalletBalance demo_runtime demo_config (shop_service wallet_200)
          (snd (quotes demo_runtime demo_config (shop_service wallet_200) [''a.com'', ''b.com'']
                  (Finite 1) None None fresh_world))) = Inr (Finite 200)"
  by code_simp+

lemma shop_buy:
  "fst (invokeSlug demo_runtime demo_config (shop_service wallet) ''POST'' ''/v2/domains/buy''
          (purchase_payload
             [\<lparr>spec_domainName = ''a.com'', spec_years = Finite 1, spec_price = Finite 100\<rparr>,
              \<lparr>spec_domainName = ''b.com'', spec_years = Finite 1, spec_price = Finite 50\<rparr>] use)
          (context_headers demo_runtime demo_config None None)
          (snd (getWalletBalance demo_runtime demo_config (shop_service wallet)
                  (snd (quotes demo_runtime demo_config (shop_service wallet) [''a.com'', ''b.com'']
                          (Finite 1) None None fresh_world)))))
     = Inr (Some (JObj [(''paymentLink'', JStr ''x'')]))"
  by code_simp

lemma purchaseDomains_quotes:
  assumes "fst (quotes rt cfg srv ds years ws sp w) = Inr prices"
    and "fst (getWalletBalance rt cfg srv (snd (quotes rt cfg srv ds years ws sp w))) = Inr bal"
    and "fst (invokeSlug rt cfg srv ''POST'' ''/v2/domains/buy''
                (purchase_payload
                   (map (\<lambda>(d, p). \<lparr>spec_domainName = d, spec_years = years, spec_price = p\<rparr>)
                      (zip ds prices))
                   (num_ge ar bal (total_of ar years prices)))
                (context_headers rt cfg ws sp)
                (snd (getWalletBalance rt cfg srv (snd (quotes rt cfg srv ds years ws sp w)))))
           = Inr res"
  shows "fst (purchaseDomains rt ar cfg srv ds years True ws sp w)
           = Inr \<lparr>useWallet = num_ge ar bal (total_of ar years prices),
                  total_cost = total_of ar years prices, result = res\<rparr>"
proof -
  let ?payload = "purchase_payload
      (map (\<lambda>(d, p). \<lparr>spec_domainName = d, spec_years = years, spec_price = p\<rparr>) (zip ds prices))
      (num_ge ar bal (total_of ar years prices))"
  obtain w1 where q: "quotes rt cfg srv ds years ws sp w = (Inr prices, w1)"
    using assms(1) by (cases "quotes rt cfg srv ds years ws sp w") auto
  obtain w2 where g: "getWalletBalance rt cfg srv w1 = (Inr bal, w2)"
    using assms(2) q by (cases "getWalletBalance rt cfg srv w1") auto
  obtain w3 where i: "invokeSlug rt cfg srv ''POST'' ''/v2/domains/buy'' ?payload
      (context_headers rt cfg ws sp) w2 = (Inr res, w3)"
    using assms(3) q g
    by (cases "invokeSlug rt cfg srv ''POST'' ''/v2/domains/buy'' ?payload
          (context_headers rt cfg ws sp) w2") auto
  show ?thesis
    using i by (simp add: purchaseDomains_def price_loop_quotes q g total_of_def)
qed

text \<open>With exact arithmetic and finite prices, the total is the sum of the prices times the
  years.\<close>

lemma foldl_add_cost_exact:
  "foldl (add_cost exact_arith (Finite y)) (Finite t) (map Finite ps)
     = Finite (t + (\<Sum>p\<leftarrow>ps. p * y))"
  by (induction ps arbitrary: t)
    (simp_all add: add_cost_def exact_arith_def or_zero_def falsy_number_def algebra_simps)

lemma total_of_exact:
  "total_of exact_arith (Finite y) (map Finite ps) = Finite (\<Sum>p\<leftarrow>ps. p * y)"
  by (simp add: total_of_def foldl_add_cost_exact)

text \<open>
  Claim C5. When \<open>purchaseDomains\<close> with \<^verbatim>\<open>preferWallet = true\<close> returns, the total of its
  result is the sum, added up from 0 over the requested domains in their order, of
  \<^verbatim>\<open>(price || 0) * years\<close> with the price resolved from the availability answer of the domain,
  and \<^verbatim>\<open>useWallet\<close> is whether the balance that \<open>getWalletBalance\<close> returned after the price
  loop is at least that total, the sums, products and comparison being those of the
  arithmetic of doubles, whatever they are. With prices 100 and 50 for one year, in any
  arithmetic that is exact on these integers, a balance of 100 gives \<^verbatim>\<open>useWallet = false\<close> and
  a balance of 200 gives \<^verbatim>\<open>useWallet = true\<close>, on a total of 150.
\<close>

theorem C5_useWallet_iff_balance_covers_total:
  "(purchaseDomains rt ar cfg srv ds years True ws sp w = (Inr r, w') \<longrightarrow>
      (\<exists>prices w1 bal w2.
          quotes rt cfg srv ds years ws sp w = (Inr prices, w1)
        \<and> length prices = length ds
        \<and> total_cost r = total_of ar years prices
        \<and> getWalletBalance rt cfg srv w1 = (Inr bal, w2)
        \<and> useWallet r = num_ge ar bal (total_cost r)))
 \<and> (num_mul ar (Finite 100) (Finite 1) = Finite 100
      \<and> num_add ar (Finite 0) (Finite 100) = Finite 100
      \<and> num_mul ar (Finite 50) (Finite 1) = Finite 50
      \<and> num_add ar (Finite 100) (Finite 50) = Finite 150
      \<and> \<not> num_ge ar (Finite 100) (Finite 150)
      \<and> num_ge ar (Finite 200) (Finite 150) \<longrightarrow>
      fst (purchaseDomains demo_runtime ar demo_config (shop_service wallet_100)
             [''a.com'', ''b.com''] (Finite 1) True None None fresh_world)
        = Inr \<lparr>useWallet = False, total_cost = Finite 150,
               result = Some (JObj [(''paymentLink'', JStr ''x'')])\<rparr>
    \<and> fst (purchaseDomains demo_runtime ar demo_config (shop_service wallet_200)
             [''a.com'', ''b.com''] (Finite 1) True None None fresh_world)
        = Inr \<lparr>useWallet = True, total_cost = Finite 150,
               result = Some (JObj [(''paymentLink'', JStr ''x'')])\<rparr>)"
proof -
  have general: "purchaseDomains rt ar cfg srv ds years True ws sp w = (Inr r, w') \<longrightarrow>
      (\<exists>prices w1 bal w2.
          quotes rt cfg srv ds years ws sp w = (Inr prices, w1)
        \<and> length prices = length ds
        \<and> total_cost r = total_of ar years prices
        \<and> getWalletBalance rt cfg srv w1 = (Inr bal, w2)
        \<and> useWallet r = num_ge ar bal (total_cost r))"
  proof
    assume a: "purchaseDomains rt ar cfg srv ds years True ws sp w = (Inr r, w')"
    obtain qs w1 where qs: "quotes rt cfg srv ds years ws sp w = (qs, w1)"
      by (cases "quotes rt cfg srv ds years ws sp w")
    from a qs obtain prices where ok1: "qs = Inr prices"
      by (cases qs) (auto simp: purchaseDomains_def price_loop_quotes)
    obtain gb w2 where gb: "getWalletBalance rt cfg srv w1 = (gb, w2)"
      by (cases "getWalletBalance rt cfg srv w1")
    from a qs ok1 gb obtain bal where ok2: "gb = Inr bal"
      by (cases gb) (auto simp: purchaseDomains_def price_loop_quotes)
    from a qs ok1 gb ok2 have r: "useWallet r = num_ge ar bal (total_of ar years prices)"
      "total_cost r = total_of ar years prices"
      by (auto simp: purchaseDomains_def price_loop_quotes total_of_def
          split: prod.splits sum.splits)
    from quotes_length [OF qs [unfolded ok1]] have len: "length prices = length ds" .
    from qs ok1 gb ok2 r len show "\<exists>prices w1 bal w2.
          quotes rt cfg srv ds years ws sp w = (Inr prices, w1)
        \<and> length prices = length ds
        \<and> total_cost r = total_of ar years prices
        \<and> getWalletBalance rt cfg srv w1 = (Inr bal, w2)
        \<and> useWallet r = num_ge ar bal (total_cost r)"
      by auto
  qed
  have shop: "num_mul ar (Finite 100) (Finite 1) = Finite 100
      \<and> num_add ar (Finite 0) (Finite 100) = Finite 100
      \<and> num_mul ar (Finite 50) (Finite 1) = Finite 50
      \<and> num_add ar (Finite 100) (Finite 50) = Finite 150
      \<and> \<not> num_ge ar (Finite 100) (Finite 150)
      \<and> num_ge ar (Finite 200) (Finite 150) \<longrightarrow>
      fst (purchaseDomains demo_runtime ar demo_config (shop_service wallet_100)
             [''a.com'', ''b.com''] (Finite 1) True None None fresh_world)
        = Inr \<lparr>useWallet = False, total_cost = Finite 150,
               result = Some (JObj [(''paymentLink'', JStr ''x'')])\<rparr>
    \<and> fst (purchaseDomains demo_runtime ar demo_config (shop_service wallet_200)
             [''a.com'', ''b.com''] (Finite 1) True None None fresh_world)
        = Inr \<lparr>useWallet = True, total_cost = Finite 150,
               result = Some (JObj [(''paymentLink'', JStr ''x'')])\<rparr>"
  proof
    assume h: "num_mul ar (Finite 100) (Finite 1) = Finite 100
      \<and> num_add ar (Finite 0) (Finite 100) = Finite 100
      \<and> num_mul ar (Finite 50) (Finite 1) = Finite 50
      \<and> num_add ar (Finite 100) (Finite 50) = Finite 150
      \<and> \<not> num_ge ar (Finite 100) (Finite 150)
      \<and> num_ge ar (Finite 200) (Finite 150)"
    then have tot: "total_of ar (Finite 1) [Finite 100, Finite 50] = Finite 150"
      by (simp add: total_of_def add_cost_def or_zero_def falsy_number_def)
    from h have ge: "num_ge ar (Finite 100) (Finite 150) = False"
      "num_ge ar (Finite 200) (Finite 150) = True"
      by simp_all
    have 1: "fst (purchaseDomains demo_runtime ar demo_config (shop_service wallet_100)
             [''a.com'', ''b.com''] (Finite 1) True None None fresh_world)
        = Inr \<lparr>useWallet = False, total_cost = Finite 150,
               result = Some (JObj [(''paymentLink'', JStr ''x'')])\<rparr>"
      using purchaseDomains_quotes [where ar = ar, OF shop_quotes shop_balance(1)]
      by (simp add: shop_buy tot ge)
    have 2: "fst (purchaseDomains demo_runtime ar demo_config (shop_service wallet_200)
             [''a.com'', ''b.com''] (Finite 1) True None None fresh_world)
        = Inr \<lparr>useWallet = True, total_cost = Finite 150,
               result = Some (JObj [(''paymentLink'', JStr ''x'')])\<rparr>"
      using purchaseDomains_quotes [where ar = ar, OF shop_quotes shop_balance(2)]
      by (simp add: shop_buy tot ge)
    from 1 2 show "fst (purchaseDomains demo_runtime ar demo_config (shop_service wallet_100)
             [''a.com'', ''b.com''] (Finite 1) True None None fresh_world)
        = Inr \<lparr>useWallet = False, total_cost = Finite 150,
               result = Some (JObj [(''paymentLink'', JStr ''x'')])\<rparr>
    \<and> fst (purchaseDomains demo_runtime ar demo_config (shop_service wallet_200)
             [''a.com'', ''b.com''] (Finite 1) True None None fresh_world)
        = Inr \<lparr>useWallet = True, total_cost = Finite 150,
               result = Some (JObj [(''paymentLink'', JStr ''x'')])\<rparr>" ..
  qed
  from general shop show ?thesis ..
qed

text \<open>The theorem at the purchase with a balance of 100, in exact arithmetic.\<close>

theorem C5_witness:
  "(\<exists>prices w1 bal w2.
      quotes demo_runtime demo_config (shop_service wallet_100) [''a.com'', ''b.com''] (Finite 1)
        None None fresh_world = (Inr prices, w1)
    \<and> length prices = 2
    \<and> Finite 150 = total_of exact_arith (Finite 1) prices
    \<and> getWalletBalance demo_runtime demo_config (shop_service wallet_100) w1 = (Inr bal, w2)
    \<and> \<not> num_ge exact_arith bal (Finite 150))
 \<and> fst (purchaseDomains demo_runtime exact_arith demo_config (shop_service wallet_100)
          [''a.com'', ''b.com''] (Finite 1) True None None fresh_world)
     = Inr \<lparr>useWallet = False, total_cost = Finite 150,
            result = Some (JObj [(''paymentLink'', JStr ''x'')])\<rparr>
 \<and> fst (purchaseDomains demo_runtime exact_arith demo_config (shop_service wallet_200)
          [''a.com'', ''b.com''] (Finite 1) True None None fresh_world)
     = Inr \<lparr>useWallet = True, total_cost = Finite 150,
            result = Some (JObj [(''paymentLink'', JStr ''x'')])\<rparr>"
proof -
  let ?run = "purchaseDomains demo_runtime exact_arith demo_config (shop_service wallet_100)
          [''a.com'', ''b.com''] (Finite 1) True None None fresh_world"
  let ?r = "\<lparr>useWallet = False, total_cost = Finite 150,
            result = Some (JObj [(''paymentLink'', JStr ''x'')])\<rparr>"
  note T = C5_useWallet_iff_balance_covers_total [of demo_runtime exact_arith demo_config
      "shop_service wallet_100" "[''a.com'', ''b.com'']" "Finite 1" None None fresh_world
      ?r "snd ?run"]
  have ar: "num_mul exact_arith (Finite 100) (Finite 1) = Finite 100
      \<and> num_add exact_arith (Finite 0) (Finite 100) = Finite 100
      \<and> num_mul exact_arith (Finite 50) (Finite 1) = Finite 50
      \<and> num_add exact_arith (Finite 100) (Finite 50) = Finite 150
      \<and> \<not> num_ge exact_arith (Finite 100) (Finite 150)
      \<and> num_ge exact_arith (Finite 200) (Finite 150)"
    by (simp add: exact_arith_def)
  from mp [OF conjunct2 [OF T] ar] have shops:
    "fst ?run = Inr ?r"
    "fst (purchaseDomains demo_runtime exact_arith demo_config (shop_service wallet_200)
          [''a.com'', ''b.com''] (Finite 1) True None None fresh_world)
     = Inr \<lparr>useWallet = True, total_cost = Finite 150,
            result = Some (JObj [(''paymentLink'', JStr ''x'')])\<rparr>"
    by blast+
  from shops(1) have run: "?run = (Inr ?r, snd ?run)"
    by (simp add: prod_eq_iff)
  from mp [OF conjunct1 [OF T] run]
  obtain prices w1 bal w2 where f:
    "quotes demo_runtime demo_config (shop_service wallet_100) [''a.com'', ''b.com''] (Finite 1)
        None None fresh_world = (Inr prices, w1)"
    "length prices = length [''a.com'', ''b.com'']"
    "total_cost ?r = total_of exact_arith (Finite 1) prices"
    "getWalletBalance demo_runtime demo_config (shop_service wallet_100) w1 = (Inr bal, w2)"
    "useWallet ?r = num_ge exact_arith bal (total_cost ?r)"
    by (elim exE conjE) (rule that)
  have t: "total_cost ?r = Finite 150" "useWallet ?r = False" by simp_all
  from f(2) have len: "length prices = 2" by simp
  note b = f(3) [unfolded t]
  from f(5) have nb: "\<not> num_ge exact_arith bal (Finite 150)" unfolding t by simp
  have "\<exists>prices w1 bal w2.
      quotes demo_runtime demo_config (shop_service wallet_100) [''a.com'', ''b.com''] (Finite 1)
        None None fresh_world = (Inr prices, w1)
    \<and> length prices = 2
    \<and> Finite 150 = total_of exact_arith (Finite 1) prices
    \<and> getWalletBalance demo_runtime demo_config (shop_service wallet_100) w1 = (Inr bal, w2)
    \<and> \<not> num_ge exact_arith bal (Finite 150)"
    by (intro exI conjI) (rule f(1) len b f(4) nb)+
  with shops show ?thesis by blast
qed

end
